theory Spec2Isabelle
  imports Complex_Main "HOL-Library.Char_ord" "HOL-Library.List_Lexorder" "HOL-Library.Multiset"
begin

section \<open>Geodistance primitive\<close>

text \<open>
  \<^verbatim>\<open>haversine_distance(lat1, lon1, lat2, lon2)\<close> of \<^verbatim>\<open>scientific_validation.py\<close> and
  \<^verbatim>\<open>advanced_validation.py\<close> (the two copies are identical). Floating-point numbers are
  modelled by the reals; \<^verbatim>\<open>np.radians\<close> multiplies by \<open>pi / 180\<close>.
\<close>

definition radians :: "real \<Rightarrow> real" where
  "radians d = d * pi / 180"

definition haversine_distance :: "real \<Rightarrow> real \<Rightarrow> real \<Rightarrow> real \<Rightarrow> real" where
  "haversine_distance lat1 lon1 lat2 lon2 =
     (let R = 6371;
          la1 = radians lat1; lo1 = radians lon1;
          la2 = radians lat2; lo2 = radians lon2;
          dlat = la2 - la1;
          dlon = lo2 - lo1;
          a = (sin (dlat / 2))\<^sup>2 + cos la1 * cos la2 * (sin (dlon / 2))\<^sup>2;
          c = 2 * arcsin (sqrt a)
      in R * c)"


section \<open>The matcher of \<^verbatim>\<open>scientific_validation.py\<close>\<close>

text \<open>
  A row of a TEMPO region frame and a row of the ground frame, with the columns the matcher
  reads. Timestamps are seconds on the real line; \<^verbatim>\<open>total_seconds() / 3600\<close> turns a
  difference into hours. A region frame is the list of its rows; its index is the default
  \<^verbatim>\<open>RangeIndex\<close>, so a row's label is its position.
\<close>

record tempo_pixel =
  latitude :: real
  longitude :: real
  time_utc :: real
  no2 :: real
  o3 :: real

record ground_row =
  Latitude :: real
  Longitude :: real
  ground_time_utc :: real
  AQI :: real
  ParameterName :: string
  city :: string

record matched_pair =
  ground_lat :: real
  ground_lon :: real
  ground_time :: real
  ground_value :: real
  ground_parameter :: string
  tempo_lat :: real
  tempo_lon :: real
  tempo_time :: real
  tempo_no2 :: real
  tempo_o3 :: real
  distance_km :: real
  time_diff_hours :: real
  pair_city :: string
  pair_region :: string
  hour_of_day :: int

text \<open>One entry of the aligned series the matcher filters: label, row, distance, time difference.\<close>

datatype candidate = Candidate (idx: nat) (pix: tempo_pixel) (dist: real) (tdiff: real)

text \<open>\<^verbatim>\<open>Series.idxmin\<close>: the entry of the first minimal value, scanning in index order.\<close>

fun idxmin :: "('a \<Rightarrow> real) \<Rightarrow> 'a \<Rightarrow> 'a list \<Rightarrow> 'a" where
  "idxmin f best [] = best"
| "idxmin f best (x # xs) = idxmin f (if f x < f best then x else best) xs"

definition distances_to :: "ground_row \<Rightarrow> tempo_pixel list \<Rightarrow> candidate list" where
  "distances_to ground_row region_tempo =
     map (\<lambda>(i, p). Candidate i p
            (haversine_distance (Latitude ground_row) (Longitude ground_row)
               (latitude p) (longitude p))
            (\<bar>time_utc p - ground_time_utc ground_row\<bar> / 3600))
       (zip [0..<length region_tempo] region_tempo)"

definition combined_score :: "candidate \<Rightarrow> real" where
  "combined_score c = dist c + tdiff c * 2"

definition make_pair :: "ground_row \<Rightarrow> string \<Rightarrow> string \<Rightarrow> candidate \<Rightarrow> matched_pair" where
  "make_pair ground_row cty tempo_region best =
     \<lparr> ground_lat = Latitude ground_row,
       ground_lon = Longitude ground_row,
       ground_time = ground_time_utc ground_row,
       ground_value = AQI ground_row,
       ground_parameter = ParameterName ground_row,
       tempo_lat = latitude (pix best),
       tempo_lon = longitude (pix best),
       tempo_time = time_utc (pix best),
       tempo_no2 = no2 (pix best),
       tempo_o3 = o3 (pix best),
       distance_km = dist best,
       time_diff_hours = tdiff best,
       pair_city = cty,
       pair_region = tempo_region,
       hour_of_day = \<lfloor>ground_time_utc ground_row / 3600\<rfloor> mod 24 \<rparr>"

text \<open>
  The body of the loop over the ground rows of one city (lines 192 to 241): \<open>None\<close> is a
  \<^verbatim>\<open>continue\<close>, \<open>Some\<close> the appended pair.
\<close>

definition match_ground_row ::
  "real \<Rightarrow> real \<Rightarrow> string \<Rightarrow> string \<Rightarrow> tempo_pixel list \<Rightarrow> ground_row \<Rightarrow> matched_pair option" where
  "match_ground_row spatial_radius_km temporal_window_hours cty tempo_region region_tempo ground_row =
     (let distances = distances_to ground_row region_tempo;
          nearby = filter (\<lambda>c. dist c \<le> spatial_radius_km) distances
      in if nearby = [] then None
         else
           let matched = filter (\<lambda>c. tdiff c \<le> temporal_window_hours) nearby
           in if matched = [] then None
              else
                let best = idxmin combined_score (hd matched) (tl matched)
                in Some (make_pair ground_row cty tempo_region best))"

definition tempo_region_of :: "string \<Rightarrow> string option" where
  "tempo_region_of cty =
     (if cty \<in> set [''New York City'', ''Philadelphia'', ''Boston'', ''Washington DC'']
        then Some ''NYC''
      else if cty \<in> set [''Montreal'', ''Toronto'', ''Hamilton''] then Some ''Canada''
      else if cty \<in> set [''Mexico City'', ''Ecatepec'', ''Toluca''] then Some ''Mexico''
      else None)"

text \<open>\<^verbatim>\<open>groupby('city')\<close>: the groups in sorted key order, each keeping the frame's row order.\<close>

definition groupby_city :: "ground_row list \<Rightarrow> (string \<times> ground_row list) list" where
  "groupby_city ground_data =
     map (\<lambda>c. (c, filter (\<lambda>g. city g = c) ground_data))
       (sort (remdups (map city ground_data)))"

definition match_city ::
  "real \<Rightarrow> real \<Rightarrow> (string \<rightharpoonup> tempo_pixel list) \<Rightarrow> string \<times> ground_row list \<Rightarrow> matched_pair list" where
  "match_city spatial_radius_km temporal_window_hours tempo_data grp =
     (case tempo_region_of (fst grp) of
        None \<Rightarrow> []
      | Some tempo_region \<Rightarrow>
          (case tempo_data tempo_region of
             None \<Rightarrow> []
           | Some region_tempo \<Rightarrow>
               List.map_filter
                 (match_ground_row spatial_radius_km temporal_window_hours (fst grp)
                    tempo_region region_tempo)
                 (snd grp)))"

definition scientific_spatial_temporal_matching ::
  "ground_row list \<Rightarrow> (string \<rightharpoonup> tempo_pixel list) \<Rightarrow> real \<Rightarrow> real \<Rightarrow> matched_pair list" where
  "scientific_spatial_temporal_matching ground_data tempo_data spatial_radius_km temporal_window_hours =
     concat (map (match_city spatial_radius_km temporal_window_hours tempo_data)
                 (groupby_city ground_data))"


section \<open>NumPy floats\<close>

text \<open>
  A float64 as the code can meet it: a finite value (a real), the two infinities, or NaN.
  Comparisons with NaN are false, except \<^verbatim>\<open>!=\<close>, which is true.
\<close>

datatype npfloat = Fin real | PInf | NInf | NaN

fun np_le :: "npfloat \<Rightarrow> npfloat \<Rightarrow> bool" where
  "np_le NaN _ = False"
| "np_le _ NaN = False"
| "np_le NInf _ = True"
| "np_le _ PInf = True"
| "np_le (Fin a) (Fin b) = (a \<le> b)"
| "np_le _ _ = False"

fun np_lt :: "npfloat \<Rightarrow> npfloat \<Rightarrow> bool" where
  "np_lt NaN _ = False"
| "np_lt _ NaN = False"
| "np_lt PInf _ = False"
| "np_lt _ NInf = False"
| "np_lt (Fin a) (Fin b) = (a < b)"
| "np_lt _ _ = True"

fun np_ne :: "npfloat \<Rightarrow> npfloat \<Rightarrow> bool" where
  "np_ne NaN _ = True"
| "np_ne _ NaN = True"
| "np_ne a b = (a \<noteq> b)"

fun isnan :: "npfloat \<Rightarrow> bool" where
  "isnan NaN = True"
| "isnan _ = False"

fun isinf :: "npfloat \<Rightarrow> bool" where
  "isinf PInf = True"
| "isinf NInf = True"
| "isinf _ = False"

text \<open>\<^verbatim>\<open>pd.notna\<close> on a float.\<close>

definition notna :: "npfloat \<Rightarrow> bool" where
  "notna v = (\<not> isnan v)"

text \<open>\<^verbatim>\<open>np.isfinite\<close>, and the finite values of an array as reals.\<close>

definition is_finite :: "npfloat \<Rightarrow> bool" where
  "is_finite v = (\<not> isnan v \<and> \<not> isinf v)"

definition finite_values :: "npfloat list \<Rightarrow> real list" where
  "finite_values xs = [r. Fin r \<leftarrow> xs]"

section \<open>The region matcher of \<^verbatim>\<open>advanced_validation.py\<close>\<close>

text \<open>
  A TEMPO region frame: its column names and its rows. A row gives its coordinates, the raw
  \<^verbatim>\<open>time\<close> column, the parsed \<^verbatim>\<open>datetime\<close> (seconds; \<open>None\<close> is \<^verbatim>\<open>NaT\<close>, which
  \<^verbatim>\<open>errors='coerce'\<close> produces) and the value of each other column by name.
\<close>

record region_pixel =
  px_latitude :: real
  px_longitude :: real
  px_time :: string
  px_datetime :: "real option"
  px_value :: "string \<Rightarrow> npfloat"

record region_frame =
  columns :: "string list"
  rows :: "region_pixel list"

text \<open>
  A ground row; \<open>None\<close> in \<open>gr_region\<close>, \<open>gr_value\<close>, \<open>gr_aqi\<close> says that the frame has
  no such column (\<^verbatim>\<open>ground_row.get\<close> then returns its default).
\<close>

record region_ground_row =
  gr_latitude :: real
  gr_longitude :: real
  gr_utc :: "real option"
  gr_parameter :: string
  gr_city :: string
  gr_region :: "string option"
  gr_value :: "npfloat option"
  gr_aqi :: "npfloat option"

record region_pair =
  rp_city :: string
  rp_region :: string
  rp_ground_lat :: real
  rp_ground_lon :: real
  rp_ground_time :: "real option"
  rp_ground_value :: npfloat
  rp_ground_aqi :: npfloat
  rp_ground_parameter :: string
  rp_tempo_lat :: real
  rp_tempo_lon :: real
  rp_tempo_time :: string
  tempo_value :: npfloat
  tempo_parameter :: string
  rp_distance_km :: real
  rp_time_diff_hours :: "real option"

text \<open>
  An entry of the aligned series \<^verbatim>\<open>distances\<close> and \<^verbatim>\<open>time_diff\<close>: label, row, distance
  and time difference in hours (\<open>None\<close> is NaN, from a \<^verbatim>\<open>NaT\<close> on either side).
\<close>

datatype region_candidate =
  RegionCandidate (r_idx: nat) (r_pix: region_pixel) (r_dist: real) (r_tdiff: "real option")

definition time_diff_of :: "real option \<Rightarrow> real option \<Rightarrow> real option" where
  "time_diff_of pixel_datetime ground_utc =
     (case (pixel_datetime, ground_utc) of
        (Some t, Some u) \<Rightarrow> Some (\<bar>t - u\<bar> / 3600)
      | _ \<Rightarrow> None)"

text \<open>\<^verbatim>\<open>time_diff <= 72\<close>: false on NaN.\<close>

definition within_hours :: "real option \<Rightarrow> real \<Rightarrow> bool" where
  "within_hours td h = (case td of None \<Rightarrow> False | Some d \<Rightarrow> d \<le> h)"

definition quality_filter :: "region_frame \<Rightarrow> region_frame" where
  "quality_filter tempo_region =
     (let t1 = (if ''quality_flag'' \<in> set (columns tempo_region)
                then tempo_region\<lparr>rows := filter (\<lambda>p. np_le (px_value p ''quality_flag'') (Fin 2))
                                               (rows tempo_region)\<rparr>
                else tempo_region);
          t2 = (if ''cloud_fraction'' \<in> set (columns t1)
                then t1\<lparr>rows := filter (\<lambda>p. np_lt (px_value p ''cloud_fraction'') (Fin (8 / 10)))
                                     (rows t1)\<rparr>
                else t1);
          t3 = (if ''solar_zenith_angle'' \<in> set (columns t2)
                then t2\<lparr>rows := filter (\<lambda>p. np_lt (px_value p ''solar_zenith_angle'') (Fin 85))
                                     (rows t2)\<rparr>
                else t2)
      in t3)"

definition region_distances :: "region_ground_row \<Rightarrow> region_pixel list \<Rightarrow> region_candidate list" where
  "region_distances ground_row pixels =
     map (\<lambda>(i, p). RegionCandidate i p
            (haversine_distance (gr_latitude ground_row) (gr_longitude ground_row)
               (px_latitude p) (px_longitude p))
            (time_diff_of (px_datetime p) (gr_utc ground_row)))
       (zip [0..<length pixels] pixels)"

definition pollutant_col_of :: "string \<Rightarrow> string option" where
  "pollutant_col_of parameter =
     (if parameter = ''OZONE'' then Some ''ozone_total_column''
      else if parameter = ''NO2'' then Some ''no2_tropospheric_column''
      else if parameter = ''PM2.5'' then Some ''pm25''
      else if parameter = ''HCHO'' then Some ''hcho_tropospheric_column''
      else None)"

definition get_or :: "'a option \<Rightarrow> 'a \<Rightarrow> 'a" where
  "get_or v d = (case v of Some x \<Rightarrow> x | None \<Rightarrow> d)"

text \<open>
  The body of the loop over one city's ground rows (lines 1299 to 1363), on the frame left
  by the quality filters. The progress and debug prints are not modelled.
\<close>

definition match_region_row ::
  "region_frame \<Rightarrow> string \<Rightarrow> region_ground_row \<Rightarrow> region_pair option" where
  "match_region_row tempo_region cty ground_row =
     (let distances = region_distances ground_row (rows tempo_region);
          nearby_tempo = filter (\<lambda>c. r_dist c \<le> 150) distances
      in if nearby_tempo = [] then None
         else
           let valid_tempo = filter (\<lambda>c. within_hours (r_tdiff c) 72) nearby_tempo
           in if valid_tempo = [] then None
              else
                let closest = idxmin r_dist (hd nearby_tempo) (tl nearby_tempo)
                in (case pollutant_col_of (gr_parameter ground_row) of
                      None \<Rightarrow> None
                    | Some pollutant_col \<Rightarrow>
                        if pollutant_col \<in> set (columns tempo_region)
                        then
                          let tempo_val = px_value (r_pix closest) pollutant_col
                          in if notna tempo_val \<and> np_ne tempo_val (Fin (- 999))
                             then Some
                               \<lparr> rp_city = cty,
                                 rp_region = get_or (gr_region ground_row) ''Unknown'',
                                 rp_ground_lat = gr_latitude ground_row,
                                 rp_ground_lon = gr_longitude ground_row,
                                 rp_ground_time = gr_utc ground_row,
                                 rp_ground_value =
                                   get_or (gr_value ground_row) (get_or (gr_aqi ground_row) (Fin 0)),
                                 rp_ground_aqi = get_or (gr_aqi ground_row) (Fin 0),
                                 rp_ground_parameter = gr_parameter ground_row,
                                 rp_tempo_lat = px_latitude (r_pix closest),
                                 rp_tempo_lon = px_longitude (r_pix closest),
                                 rp_tempo_time = px_time (r_pix closest),
                                 tempo_value = tempo_val,
                                 tempo_parameter = pollutant_col,
                                 rp_distance_km = r_dist closest,
                                 rp_time_diff_hours = r_tdiff closest \<rparr>
                             else None
                        else None))"

text \<open>\<^verbatim>\<open>Series.unique()\<close>: the distinct values in order of first appearance.\<close>

definition unique :: "'a list \<Rightarrow> 'a list" where
  "unique xs = rev (remdups (rev xs))"

definition match_region_temporally_and_spatially ::
  "region_ground_row list \<Rightarrow> region_frame \<Rightarrow> region_pair list" where
  "match_region_temporally_and_spatially ground_region tempo_region =
     (let tempo_filtered = quality_filter tempo_region;
          cities_in_region = filter (\<lambda>c. c \<noteq> ''Unknown'') (unique (map gr_city ground_region))
      in concat (map (\<lambda>cty.
                   let city_ground = filter (\<lambda>g. gr_city g = cty) ground_region
                   in List.map_filter (match_region_row tempo_filtered cty) city_ground)
                 cities_in_region))"

section \<open>Quantile mapping\<close>

text \<open>
  Arithmetic on float64 values. A finite result is the result over the reals (rounding and
  overflow are not modelled, and the sign of a zero is taken as positive); the cases with an
  infinity, a NaN or a zero divisor follow IEEE 754, as NumPy scalars do without raising.
\<close>

fun np_neg :: "npfloat \<Rightarrow> npfloat" where
  "np_neg (Fin a) = Fin (- a)"
| "np_neg PInf = NInf"
| "np_neg NInf = PInf"
| "np_neg NaN = NaN"

fun np_add :: "npfloat \<Rightarrow> npfloat \<Rightarrow> npfloat" where
  "np_add NaN _ = NaN"
| "np_add _ NaN = NaN"
| "np_add (Fin a) (Fin b) = Fin (a + b)"
| "np_add PInf NInf = NaN"
| "np_add NInf PInf = NaN"
| "np_add PInf _ = PInf"
| "np_add _ PInf = PInf"
| "np_add NInf _ = NInf"
| "np_add _ NInf = NInf"

definition np_sub :: "npfloat \<Rightarrow> npfloat \<Rightarrow> npfloat" where
  "np_sub a b = np_add a (np_neg b)"

fun is_negative :: "npfloat \<Rightarrow> bool" where
  "is_negative (Fin a) = (a < 0)"
| "is_negative NInf = True"
| "is_negative _ = False"

definition signed_inf :: "bool \<Rightarrow> npfloat" where
  "signed_inf negative = (if negative then NInf else PInf)"

fun np_mul :: "npfloat \<Rightarrow> npfloat \<Rightarrow> npfloat" where
  "np_mul NaN _ = NaN"
| "np_mul _ NaN = NaN"
| "np_mul (Fin a) (Fin b) = Fin (a * b)"
| "np_mul (Fin a) y = (if a = 0 then NaN else signed_inf ((a < 0) \<noteq> is_negative y))"
| "np_mul x (Fin b) = (if b = 0 then NaN else signed_inf (is_negative x \<noteq> (b < 0)))"
| "np_mul x y = signed_inf (is_negative x \<noteq> is_negative y)"

fun np_div :: "npfloat \<Rightarrow> npfloat \<Rightarrow> npfloat" where
  "np_div NaN _ = NaN"
| "np_div _ NaN = NaN"
| "np_div (Fin a) (Fin b) =
     (if b \<noteq> 0 then Fin (a / b) else if a = 0 then NaN else signed_inf (a < 0))"
| "np_div (Fin a) _ = Fin 0"
| "np_div x (Fin b) = signed_inf (is_negative x \<noteq> (b < 0))"
| "np_div _ _ = NaN"

text \<open>
  \<^verbatim>\<open>np.quantile(a, q)\<close> for one \<open>q\<close> in \<open>[0, 1]\<close>, with the default linear interpolation
  between the two order statistics around the virtual index \<open>q * (n - 1)\<close>. \<open>None\<close> stands
  for the result on an empty array (NaN or an IndexError, by NumPy version).
\<close>

definition np_quantile :: "real list \<Rightarrow> real \<Rightarrow> real option" where
  "np_quantile a q =
     (if a = [] then None
      else
        let s = sort a;
            n = length a;
            h = q * real (n - 1);
            lo = nat \<lfloor>h\<rfloor>;
            hi = min (lo + 1) (n - 1)
        in Some (s ! lo + (h - real lo) * (s ! hi - s ! lo)))"

text \<open>
  \<^verbatim>\<open>np.interp(x, xp, fp)\<close> on the sample points \<open>zip xp fp\<close>, \<open>xp\<close> non-decreasing: constant
  outside the sample range, linear between the two neighbours inside it.
\<close>

fun np_interp :: "real \<Rightarrow> (real \<times> real) list \<Rightarrow> real" where
  "np_interp x [] = 0"
| "np_interp x [(a, fa)] = fa"
| "np_interp x ((a, fa) # (b, fb) # rest) =
     (if x < a then fa
      else if x < b then (fb - fa) / (b - a) * (x - a) + fa
      else np_interp x ((b, fb) # rest))"

text \<open>
  \<^verbatim>\<open>quantile_mapping(ground, tempo)\<close> (lines 292 to 321) with its inner \<^verbatim>\<open>map_value\<close>; the
  result carries the mapped values and the two quantile triples.
\<close>

definition map_value :: "real list \<Rightarrow> real list \<Rightarrow> real \<Rightarrow> npfloat" where
  "map_value ground_quantiles tempo_quantiles x =
     (if x \<le> tempo_quantiles ! 0
        then np_mul (Fin (ground_quantiles ! 0)) (np_div (Fin x) (Fin (tempo_quantiles ! 0)))
      else if x \<le> tempo_quantiles ! 2
        then Fin (np_interp x (zip tempo_quantiles ground_quantiles))
      else
        let slope = np_div (Fin (ground_quantiles ! 2 - ground_quantiles ! 1))
                           (Fin (tempo_quantiles ! 2 - tempo_quantiles ! 1))
        in np_add (Fin (ground_quantiles ! 2)) (np_mul slope (Fin (x - tempo_quantiles ! 2))))"

definition quantiles3 :: "real list \<Rightarrow> real list option" where
  "quantiles3 a =
     (case (np_quantile a (1 / 10), np_quantile a (5 / 10), np_quantile a (9 / 10)) of
        (Some p10, Some p50, Some p90) \<Rightarrow> Some [p10, p50, p90]
      | _ \<Rightarrow> None)"

definition quantile_mapping :: "real list \<Rightarrow> real list \<Rightarrow> (npfloat list \<times> real list \<times> real list) option" where
  "quantile_mapping ground tempo =
     (case (quantiles3 ground, quantiles3 tempo) of
        (Some ground_quantiles, Some tempo_quantiles) \<Rightarrow>
          Some (map (map_value ground_quantiles tempo_quantiles) tempo,
                ground_quantiles, tempo_quantiles)
      | _ \<Rightarrow> None)"

section \<open>Permutation test\<close>

text \<open>The exceptions the modelled code can raise.\<close>

datatype py_error = ValueError | TypeError | LinAlgError

text \<open>
  \<^verbatim>\<open>sklearn.metrics.r2_score(y_true, y_pred)\<close> on finite samples: a \<^verbatim>\<open>ValueError\<close> on empty
  or differently long inputs, NaN (with a warning) on fewer than two samples, else
  \<open>1 - SS_res / SS_tot\<close>, and 1 or 0 when \<open>SS_tot\<close> is zero.
\<close>

definition mean :: "real list \<Rightarrow> real" where
  "mean xs = sum_list xs / real (length xs)"

definition r2_score :: "real list \<Rightarrow> real list \<Rightarrow> py_error + npfloat" where
  "r2_score y_true y_pred =
     (if length y_true \<noteq> length y_pred \<or> y_true = [] then Inl ValueError
      else if length y_true < 2 then Inr NaN
      else
        let numerator = (\<Sum>(t, p) \<leftarrow> zip y_true y_pred. (t - p)\<^sup>2);
            denominator = (\<Sum>t \<leftarrow> y_true. (t - mean y_true)\<^sup>2)
        in Inr (Fin (if denominator \<noteq> 0 then 1 - numerator / denominator
                     else if numerator = 0 then 1 else 0)))"

text \<open>
  The histogram of lines 339 to 348, \<^verbatim>\<open>plt.hist(r2_permuted, bins=50)\<close>. Matplotlib takes the
  range of the bins from the values that are not NaN; when the list is not empty and holds no
  such value, or when it holds an infinity, the range is not finite and NumPy raises a
  \<^verbatim>\<open>ValueError\<close>. An empty list draws an empty histogram.
\<close>

definition plt_hist :: "npfloat list \<Rightarrow> py_error + unit" where
  "plt_hist r2_permuted =
     (if r2_permuted \<noteq> []
         \<and> (filter (\<lambda>v. \<not> isnan v) r2_permuted = [] \<or> (\<exists>v \<in> set r2_permuted. isinf v))
      then Inl ValueError
      else Inr ())"

text \<open>
  \<^verbatim>\<open>permutation_test(ground, tempo, n_permutations)\<close> (lines 323 to 355). The first call of
  \<^verbatim>\<open>r2_score\<close> raises a \<^verbatim>\<open>ValueError\<close> on a NaN or an infinity in either sample; past it the
  samples are finite. The global random generator is a state \<open>'g\<close>; \<open>permutation\<close> is
  \<^verbatim>\<open>np.random.permutation\<close> on it, returning the shuffled copy and the next state. The p-value
  is computed before the plot is drawn, and the plot is drawn before the function returns. Of
  the plot only the histogram can raise on the scores; the directory \<^verbatim>\<open>artifacts/validation\<close>
  that \<^verbatim>\<open>savefig\<close> writes to is taken to exist. The mean and deviation of the permuted
  scores, which are NaN on an empty list and never raise, are left out of the result.
\<close>

record permutation_result =
  real_r2 :: npfloat
  p_value :: npfloat

fun permuted_scores ::
  "('g \<Rightarrow> real list \<Rightarrow> real list \<times> 'g) \<Rightarrow> nat \<Rightarrow> 'g \<Rightarrow> real list \<Rightarrow> real list
     \<Rightarrow> py_error + (npfloat list \<times> 'g)" where
  "permuted_scores permutation 0 rng ground tempo = Inr ([], rng)"
| "permuted_scores permutation (Suc n) rng ground tempo =
     (case permutation rng ground of
        (ground_shuffled, rng') \<Rightarrow>
          (case r2_score ground_shuffled tempo of
             Inl e \<Rightarrow> Inl e
           | Inr r2_perm \<Rightarrow>
               (case permuted_scores permutation n rng' ground tempo of
                  Inl e \<Rightarrow> Inl e
                | Inr (r2_permuted, rng'') \<Rightarrow> Inr (r2_perm # r2_permuted, rng''))))"

definition permutation_test ::
  "('g \<Rightarrow> real list \<Rightarrow> real list \<times> 'g) \<Rightarrow> 'g \<Rightarrow> npfloat list \<Rightarrow> npfloat list \<Rightarrow> int
     \<Rightarrow> py_error + (permutation_result \<times> 'g)" where
  "permutation_test permutation rng ground tempo n_permutations =
     (if (\<exists>v \<in> set ground. \<not> is_finite v) \<or> (\<exists>v \<in> set tempo. \<not> is_finite v) then Inl ValueError
      else
        (case r2_score (finite_values ground) (finite_values tempo) of
           Inl e \<Rightarrow> Inl e
         | Inr r2 \<Rightarrow>
             (case permuted_scores permutation (nat n_permutations) rng
                     (finite_values ground) (finite_values tempo) of
                Inl e \<Rightarrow> Inl e
              | Inr (r2_permuted, rng') \<Rightarrow>
                  let p = np_div (Fin (real (length (filter (\<lambda>r. np_le r2 r) r2_permuted))))
                                 (Fin (real_of_int n_permutations))
                  in (case plt_hist r2_permuted of
                        Inl e \<Rightarrow> Inl e
                      | Inr _ \<Rightarrow> Inr (\<lparr> real_r2 = r2, p_value = p \<rparr>, rng')))))"

text \<open>The shuffled copies the loop draws, in order.\<close>

fun shuffles :: "('g \<Rightarrow> real list \<Rightarrow> real list \<times> 'g) \<Rightarrow> nat \<Rightarrow> 'g \<Rightarrow> real list \<Rightarrow> real list list" where
  "shuffles permutation 0 rng ground = []"
| "shuffles permutation (Suc n) rng ground =
     fst (permutation rng ground) # shuffles permutation n (snd (permutation rng ground)) ground"

text \<open>A generator for the examples: it reverses the sample and counts its calls.\<close>

definition reversing_permutation :: "nat \<Rightarrow> real list \<Rightarrow> real list \<times> nat" where
  "reversing_permutation rng xs = (rev xs, Suc rng)"

section \<open>Deming regression\<close>

text \<open>
  \<^verbatim>\<open>np.median\<close>: NaN on an empty array or when a NaN is present, else the middle of the
  sorted values (the mean of the two middle ones for an even count).
\<close>

fun np_abs :: "npfloat \<Rightarrow> npfloat" where
  "np_abs (Fin a) = Fin \<bar>a\<bar>"
| "np_abs NaN = NaN"
| "np_abs _ = PInf"

fun np_insort :: "npfloat \<Rightarrow> npfloat list \<Rightarrow> npfloat list" where
  "np_insort x [] = [x]"
| "np_insort x (y # ys) = (if np_le x y then x # y # ys else y # np_insort x ys)"

definition np_sort :: "npfloat list \<Rightarrow> npfloat list" where
  "np_sort xs = foldr np_insort xs []"

definition np_median :: "npfloat list \<Rightarrow> npfloat" where
  "np_median xs =
     (if xs = [] \<or> (\<exists>v \<in> set xs. isnan v) then NaN
      else
        let s = np_sort xs; n = length xs
        in if odd n then s ! (n div 2)
           else np_div (np_add (s ! (n div 2 - 1)) (s ! (n div 2))) (Fin 2))"

text \<open>\<^verbatim>\<open>robust_var(x)\<close> (lines 67 to 71).\<close>

definition robust_var :: "npfloat list \<Rightarrow> npfloat" where
  "robust_var x =
     (let med = np_median x;
          mad = np_add (np_median (map (\<lambda>v. np_abs (np_sub v med)) x)) (Fin (1 / 10 ^ 9));
          sigma = np_mul (Fin (14826 / 10000)) mad
      in np_mul sigma sigma)"

text \<open>Python's \<^verbatim>\<open>max(a, b)\<close>: \<open>a\<close> unless \<open>b > a\<close>; \<^verbatim>\<open>np.clip\<close> keeps a NaN.\<close>

definition py_max :: "npfloat \<Rightarrow> npfloat \<Rightarrow> npfloat" where
  "py_max a b = (if np_lt a b then b else a)"

definition np_clip :: "npfloat \<Rightarrow> real \<Rightarrow> real \<Rightarrow> npfloat" where
  "np_clip v lo hi =
     (if isnan v then NaN
      else if np_lt v (Fin lo) then Fin lo
      else if np_lt (Fin hi) v then Fin hi
      else v)"

text \<open>The lines the code prints with the tag \<^verbatim>\<open>[warn]\<close>.\<close>

datatype warning = LambdaClamped | DegenerateVariance | OlsFailed | DemingFailed

text \<open>
  Lines 93 to 102 of \<^verbatim>\<open>deming_regression\<close>: the variance ratio, estimated when it is not
  supplied, its clamped value and the warning printed when the two differ.
\<close>

definition clamp_lambda :: "npfloat list \<Rightarrow> npfloat list \<Rightarrow> npfloat option \<Rightarrow> npfloat \<times> warning list" where
  "clamp_lambda x y lambda_ratio =
     (let lam = (case lambda_ratio of
                   None \<Rightarrow>
                     let var_ground = robust_var x;
                         var_tempo = py_max (robust_var y) (Fin (1 / 10 ^ 9))
                     in np_div var_ground var_tempo
                 | Some l \<Rightarrow> l);
          lambda_clamped = np_clip lam (5 / 100) 20
      in (lambda_clamped, if np_ne lam lambda_clamped then [LambdaClamped] else []))"

text \<open>
  \<^verbatim>\<open>np.var\<close>: the mean squared deviation from the mean; NaN on an empty array and whenever
  an element is not finite (the deviation of an infinite element from the mean is NaN).
\<close>

definition np_var :: "npfloat list \<Rightarrow> npfloat" where
  "np_var xs =
     (if xs = [] \<or> (\<exists>v \<in> set xs. \<not> is_finite v) then NaN
      else let rs = finite_values xs in Fin ((\<Sum>r \<leftarrow> rs. (r - mean rs)\<^sup>2) / real (length rs)))"

definition degenerate :: "npfloat list \<Rightarrow> npfloat list \<Rightarrow> bool" where
  "degenerate x y =
     (np_lt (np_var x) (Fin (1 / 10 ^ 6)) \<or> np_lt (np_var y) (Fin (1 / 10 ^ 6))
      \<or> (\<exists>v \<in> set x. isnan v) \<or> (\<exists>v \<in> set y. isnan v)
      \<or> (\<exists>v \<in> set x. isinf v) \<or> (\<exists>v \<in> set y. isinf v))"

text \<open>The pairs the mask of lines 109 and 110 keeps: both values finite.\<close>

definition clean_pairs :: "npfloat list \<Rightarrow> npfloat list \<Rightarrow> (real \<times> real) list" where
  "clean_pairs x y = [(a, b). (Fin a, Fin b) \<leftarrow> zip x y]"

text \<open>
  The \<^verbatim>\<open>try\<close> block of the degenerate branch (lines 107 to 117); \<open>polyfit x y\<close> stands for
  \<^verbatim>\<open>np.polyfit(x, y, 1)\<close>. Arrays of different lengths make the mask or the indexing raise
  inside the block.
\<close>

definition fallback_fit ::
  "(real list \<Rightarrow> real list \<Rightarrow> py_error + real \<times> real) \<Rightarrow> npfloat list \<Rightarrow> npfloat list
     \<Rightarrow> real \<times> real \<times> npfloat" where
  "fallback_fit polyfit x y =
     (if length x \<noteq> length y then (1, 0, Fin 0)
      else
        let clean = clean_pairs x y;
            x_clean = map fst clean;
            y_clean = map snd clean
        in if length x_clean > 1
           then (case polyfit x_clean y_clean of
                   Inl e \<Rightarrow> (1, 0, Fin 0)
                 | Inr (slope_ols, intercept_ols) \<Rightarrow>
                     (case r2_score y_clean (map (\<lambda>v. slope_ols * v + intercept_ols) x_clean) of
                        Inl e \<Rightarrow> (1, 0, Fin 0)
                      | Inr r2_ols \<Rightarrow> (slope_ols, intercept_ols, r2_ols)))
           else (1, 0, Fin 0))"

definition np_sum :: "npfloat list \<Rightarrow> npfloat" where
  "np_sum vs = foldl np_add (Fin 0) vs"

definition objective :: "npfloat \<Rightarrow> real list \<Rightarrow> real list \<Rightarrow> real \<times> real \<Rightarrow> npfloat" where
  "objective lambda_clamped x y params =
     (case params of
        (slope, intercept) \<Rightarrow>
          np_sum (map (\<lambda>(xv, yv).
                    np_div (Fin ((yv - (slope * xv + intercept))\<^sup>2))
                           (np_add lambda_clamped (Fin (slope\<^sup>2))))
                  (zip x y)))"

record deming_result =
  slope :: real
  intercept :: real
  r2 :: npfloat
  lambda_used :: npfloat

text \<open>
  \<^verbatim>\<open>deming_regression(x, y, lambda_ratio=...)\<close> (lines 83 to 149); \<^verbatim>\<open>x_err\<close> and \<^verbatim>\<open>y_err\<close>
  are never read. \<open>polyfit\<close> and \<open>minimize\<close> stand for \<^verbatim>\<open>np.polyfit(., ., 1)\<close> and SciPy's
  \<^verbatim>\<open>minimize(., ., method='BFGS')\<close>, which return or raise. The result pairs the outcome with
  the warnings printed. Past the degenerate branch all values are finite; there arrays of
  different lengths make \<open>polyfit\<close> and the objective raise inside their \<^verbatim>\<open>try\<close> blocks and
  \<^verbatim>\<open>r2_score\<close> raise in the last handler.
\<close>

definition deming_regression ::
  "(real list \<Rightarrow> real list \<Rightarrow> py_error + real \<times> real)
     \<Rightarrow> ((real \<times> real \<Rightarrow> npfloat) \<Rightarrow> real \<times> real \<Rightarrow> py_error + real \<times> real)
     \<Rightarrow> npfloat list \<Rightarrow> npfloat list \<Rightarrow> npfloat option
     \<Rightarrow> (py_error + deming_result) \<times> warning list" where
  "deming_regression polyfit minimize x y lambda_ratio =
     (case clamp_lambda x y lambda_ratio of
        (lambda_clamped, w1) \<Rightarrow>
          if degenerate x y
          then (case fallback_fit polyfit x y of
                  (slope_ols, intercept_ols, r2_ols) \<Rightarrow>
                    (Inr \<lparr> slope = slope_ols, intercept = intercept_ols, r2 = r2_ols,
                           lambda_used = lambda_clamped \<rparr>,
                     w1 @ [DegenerateVariance]))
          else if length x \<noteq> length y
          then (Inl ValueError, w1 @ [OlsFailed, DemingFailed])
          else
            let xs = finite_values x;
                ys = finite_values y;
                ols = polyfit xs ys;
                start = (case ols of Inl e \<Rightarrow> (1, 0) | Inr p \<Rightarrow> p);
                w2 = (case ols of Inl e \<Rightarrow> [OlsFailed] | Inr p \<Rightarrow> [])
            in (case minimize (objective lambda_clamped xs ys) start of
                  Inr (slope_deming, intercept_deming) \<Rightarrow>
                    let ss_res = (\<Sum>(xv, yv) \<leftarrow> zip xs ys.
                                    (yv - (slope_deming * xv + intercept_deming))\<^sup>2);
                        ss_tot = (\<Sum>yv \<leftarrow> ys. (yv - mean ys)\<^sup>2)
                    in (Inr \<lparr> slope = slope_deming, intercept = intercept_deming,
                              r2 = np_sub (Fin 1) (np_div (Fin ss_res) (Fin ss_tot)),
                              lambda_used = lambda_clamped \<rparr>,
                        w1 @ w2)
                | Inl e \<Rightarrow>
                    (case r2_score ys (map (\<lambda>v. fst start * v + snd start) xs) of
                       Inl e' \<Rightarrow> (Inl e', w1 @ w2 @ [DemingFailed])
                     | Inr r2_ols \<Rightarrow>
                         (Inr \<lparr> slope = fst start, intercept = snd start, r2 = r2_ols,
                                lambda_used = lambda_clamped \<rparr>,
                          w1 @ w2 @ [DemingFailed]))))"

text \<open>
  \<^verbatim>\<open>np.polyfit(x, y, 1)\<close> on finite samples. NumPy raises a \<^verbatim>\<open>TypeError\<close> on an empty \<open>x\<close> and on
  different lengths. It divides the two columns of the design matrix, \<open>x\<close> and the ones, by
  their norms, so an all-zero \<open>x\<close> is divided by zero and the solver raises on the NaNs. It
  solves the scaled least-squares problem by a singular value decomposition and drops the
  smaller singular value when it is at most \<open>rcond = len(x) * eps\<close> times the larger one, \<open>eps = 1 / 2^52\<close>
  (with a \<^verbatim>\<open>RankWarning\<close>, which is no exception); this gives the minimum-norm solution of the
  scaled system, on a constant \<open>x = c\<close> the line \<open>slope = mean y / (2 c)\<close>,
  \<open>intercept = mean y / 2\<close>. Otherwise it gives the least-squares line. The squared singular
  values of the scaled matrix are \<open>1 + cosine\<close> and \<open>1 - cosine\<close>, for the cosine of the angle
  between \<open>x\<close> and the ones.

  The solution is computed exactly here. NumPy's coefficients differ from it by a rounding
  error, which matters where a later step tests for exact equality (as \<^verbatim>\<open>r2_score\<close> does on
  a constant sample); that error is the argument \<open>err\<close>. It is zero when every \<open>y\<close> is zero:
  the solver then only multiplies and adds zeros.
\<close>

definition np_polyfit1 :: "real \<times> real \<Rightarrow> real list \<Rightarrow> real list \<Rightarrow> py_error + real \<times> real" where
  "np_polyfit1 err x y =
     (if x = [] \<or> length x \<noteq> length y then Inl TypeError
      else if \<forall>v \<in> set x. v = 0 then Inl LinAlgError
      else
        let n = real (length x);
            sx = sum_list x;
            sy = sum_list y;
            sxx = (\<Sum>v \<leftarrow> x. v\<^sup>2);
            sxy = (\<Sum>(v, w) \<leftarrow> zip x y. v * w);
            q = sqrt (n * sxx);
            cosine = \<bar>sx\<bar> / q;
            rcond = n / 2 ^ 52;
            exact =
              (if 1 - cosine \<le> rcond\<^sup>2 * (1 + cosine)
               then ((sxy * q / sxx + sgn sx * sy) / (2 * (q + \<bar>sx\<bar>)),
                     (sgn sx * sxy + sy * q / n) / (2 * (q + \<bar>sx\<bar>)))
               else ((n * sxy - sx * sy) / (n * sxx - sx\<^sup>2),
                     (sy * sxx - sx * sxy) / (n * sxx - sx\<^sup>2)))
        in Inr (fst exact + fst err, snd exact + snd err))"

text \<open>An optimizer for the examples: it returns its starting point.\<close>

definition minimize_at_start ::
  "(real \<times> real \<Rightarrow> npfloat) \<Rightarrow> real \<times> real \<Rightarrow> py_error + real \<times> real" where
  "minimize_at_start f x0 = Inr x0"

text \<open>
  The estimate in the words of its description, on finite samples: the median, the median
  absolute deviation scaled by 1.4826 (after the code's offset of \<open>1e-9\<close>) and squared, and
  the ratio with the code's floor of \<open>1e-9\<close> on the denominator.
\<close>

definition median :: "real list \<Rightarrow> real" where
  "median xs =
     (let s = sort xs; n = length xs
      in if odd n then s ! (n div 2) else (s ! (n div 2 - 1) + s ! (n div 2)) / 2)"

definition mad_variance :: "real list \<Rightarrow> real" where
  "mad_variance xs =
     (14826 / 10000 * (median (map (\<lambda>v. \<bar>v - median xs\<bar>) xs) + 1 / 10 ^ 9))\<^sup>2"

definition lambda_estimate :: "real list \<Rightarrow> real list \<Rightarrow> real" where
  "lambda_estimate xs ys = mad_variance xs / max (mad_variance ys) (1 / 10 ^ 9)"

definition clamped :: "real \<Rightarrow> real" where
  "clamped l = min (max l (5 / 100)) 20"

section \<open>Leave-one-city-out validation\<close>

text \<open>
  \<^verbatim>\<open>mean_squared_error\<close> and \<^verbatim>\<open>mean_absolute_error\<close> of scikit-learn: a \<^verbatim>\<open>ValueError\<close> on
  empty or differently long inputs and on a NaN or an infinity, else the mean of the squared
  (absolute) differences.
\<close>

definition mean_squared_error :: "npfloat list \<Rightarrow> npfloat list \<Rightarrow> py_error + real" where
  "mean_squared_error y_true y_pred =
     (if length y_true \<noteq> length y_pred \<or> y_true = []
         \<or> (\<exists>v \<in> set y_true. \<not> is_finite v) \<or> (\<exists>v \<in> set y_pred. \<not> is_finite v)
      then Inl ValueError
      else Inr (mean (map (\<lambda>(t, p). (t - p)\<^sup>2) (zip (finite_values y_true) (finite_values y_pred)))))"

definition mean_absolute_error :: "real list \<Rightarrow> real list \<Rightarrow> real" where
  "mean_absolute_error y_true y_pred = mean (map (\<lambda>(t, p). \<bar>t - p\<bar>) (zip y_true y_pred))"

text \<open>
  The root mean squared error in the words of its description, on finite samples: the square
  root of the mean of the squared differences.
\<close>

definition rmse :: "real list \<Rightarrow> real list \<Rightarrow> real" where
  "rmse y_true y_pred = sqrt (mean (map (\<lambda>(t, p). (t - p)\<^sup>2) (zip y_true y_pred)))"

record loco_entry =
  n_train :: nat
  n_test :: nat
  r2_train :: npfloat
  r2_test :: npfloat
  rmse_raw :: real
  rmse_calibrated :: real
  rmse_improvement :: npfloat
  mae_test :: real
  bias_test :: real
  calibration_slope :: real
  calibration_intercept :: real

text \<open>
  The body of the loop of \<^verbatim>\<open>loco_validation\<close> (lines 367 to 415) for one test city, on the
  matched pairs of the region matcher: \<open>Inr None\<close> is the \<^verbatim>\<open>continue\<close>, \<open>Inl\<close> an exception
  that leaves the function. The prints are not modelled.
\<close>

definition loco_group ::
  "(real list \<Rightarrow> real list \<Rightarrow> py_error + real \<times> real)
     \<Rightarrow> ((real \<times> real \<Rightarrow> npfloat) \<Rightarrow> real \<times> real \<Rightarrow> py_error + real \<times> real)
     \<Rightarrow> region_pair list \<Rightarrow> string \<Rightarrow> py_error + loco_entry option" where
  "loco_group polyfit minimize matched_data test_city =
     (let train_data = filter (\<lambda>r. rp_city r \<noteq> test_city) matched_data;
          test_data = filter (\<lambda>r. rp_city r = test_city) matched_data
      in if length train_data < 10 \<or> length test_data < 5 then Inr None
         else
           (case fst (deming_regression polyfit minimize
                        (map rp_ground_value train_data) (map tempo_value train_data) None) of
              Inl e \<Rightarrow> Inl e
            | Inr fit \<Rightarrow>
                let test_ground = map rp_ground_value test_data;
                    test_tempo = map tempo_value test_data;
                    test_tempo_calibrated =
                      map (\<lambda>v. np_add (np_mul (Fin (slope fit)) v) (Fin (intercept fit))) test_tempo
                in (case mean_squared_error test_ground test_tempo of
                      Inl e \<Rightarrow> Inl e
                    | Inr mse_raw \<Rightarrow>
                        (case mean_squared_error test_ground test_tempo_calibrated of
                           Inl e \<Rightarrow> Inl e
                         | Inr mse_calibrated \<Rightarrow>
                             let raw = sqrt mse_raw;
                                 calibrated = sqrt mse_calibrated;
                                 improvement =
                                   np_mul (np_div (Fin (raw - calibrated)) (Fin raw)) (Fin 100);
                                 g = finite_values test_ground;
                                 c = finite_values test_tempo_calibrated;
                                 other = (case r2_score g c of
                                            Inl e \<Rightarrow> (Fin 0, 0, 0)
                                          | Inr r \<Rightarrow>
                                              (r, mean_absolute_error g c,
                                               mean (map (\<lambda>(p, t). p - t) (zip c g))))
                             in Inr (Some
                                  \<lparr> n_train = length train_data,
                                    n_test = length test_data,
                                    r2_train = r2 fit,
                                    r2_test = fst other,
                                    rmse_raw = raw,
                                    rmse_calibrated = calibrated,
                                    rmse_improvement = improvement,
                                    mae_test = fst (snd other),
                                    bias_test = snd (snd other),
                                    calibration_slope = slope fit,
                                    calibration_intercept = intercept fit \<rparr>)))))"

text \<open>The loop over the cities; the result dictionary as the list of its items.\<close>

fun loco_loop ::
  "(real list \<Rightarrow> real list \<Rightarrow> py_error + real \<times> real)
     \<Rightarrow> ((real \<times> real \<Rightarrow> npfloat) \<Rightarrow> real \<times> real \<Rightarrow> py_error + real \<times> real)
     \<Rightarrow> region_pair list \<Rightarrow> string list \<Rightarrow> py_error + (string \<times> loco_entry) list" where
  "loco_loop polyfit minimize matched_data [] = Inr []"
| "loco_loop polyfit minimize matched_data (test_city # cities) =
     (case loco_group polyfit minimize matched_data test_city of
        Inl e \<Rightarrow> Inl e
      | Inr None \<Rightarrow> loco_loop polyfit minimize matched_data cities
      | Inr (Some entry) \<Rightarrow>
          (case loco_loop polyfit minimize matched_data cities of
             Inl e \<Rightarrow> Inl e
           | Inr loco_results \<Rightarrow> Inr ((test_city, entry) # loco_results)))"

definition loco_validation ::
  "(real list \<Rightarrow> real list \<Rightarrow> py_error + real \<times> real)
     \<Rightarrow> ((real \<times> real \<Rightarrow> npfloat) \<Rightarrow> real \<times> real \<Rightarrow> py_error + real \<times> real)
     \<Rightarrow> region_pair list \<Rightarrow> py_error + (string \<times> loco_entry) list" where
  "loco_validation polyfit minimize matched_data =
     loco_loop polyfit minimize matched_data (unique (map rp_city matched_data))"

text \<open>Matched pairs for the examples: a city, a ground value and a satellite value.\<close>

definition pair_example :: "string \<Rightarrow> real \<Rightarrow> real \<Rightarrow> region_pair" where
  "pair_example cty g t =
     \<lparr> rp_city = cty, rp_region = ''NYC'', rp_ground_lat = 40, rp_ground_lon = - 74,
       rp_ground_time = Some 0, rp_ground_value = Fin g, rp_ground_aqi = Fin 0,
       rp_ground_parameter = ''NO2'', rp_tempo_lat = 40, rp_tempo_lon = - 74,
       rp_tempo_time = ''t'', tempo_value = Fin t,
       tempo_parameter = ''no2_tropospheric_column'', rp_distance_km = 0,
       rp_time_diff_hours = Some 0 \<rparr>"

definition loco_example :: "region_pair list" where
  "loco_example = replicate 10 (pair_example ''A'' 5 0) @ replicate 5 (pair_example ''B'' 3 5)"

section \<open>Concrete inputs\<close>

text \<open>Small frames on which the matchers are evaluated below.\<close>

definition region_ground_example :: region_ground_row where
  "region_ground_example =
     \<lparr> gr_latitude = 40, gr_longitude = - 74, gr_utc = Some 0, gr_parameter = ''NO2'',
       gr_city = ''Boston'', gr_region = Some ''NYC'', gr_value = Some (Fin 30), gr_aqi = None \<rparr>"

definition region_pixel_example :: "real \<Rightarrow> real \<Rightarrow> npfloat \<Rightarrow> region_pixel" where
  "region_pixel_example lat hours v =
     \<lparr> px_latitude = lat, px_longitude = - 74, px_time = ''t'',
       px_datetime = Some (hours * 3600), px_value = (\<lambda>_. v) \<rparr>"

definition region_frame_example :: "region_pixel list \<Rightarrow> region_frame" where
  "region_frame_example ps =
     \<lparr> columns = [''latitude'', ''longitude'', ''time'', ''no2_tropospheric_column'', ''datetime''],
       rows = ps \<rparr>"

definition ground_example :: ground_row where
  "ground_example =
     \<lparr> Latitude = 40, Longitude = - 74, ground_time_utc = 0, AQI = 42,
       ParameterName = ''O3'', city = ''Boston'' \<rparr>"

definition tempo_pixel_example :: "real \<Rightarrow> real \<Rightarrow> tempo_pixel" where
  "tempo_pixel_example hours v =
     \<lparr> latitude = 40, longitude = - 74, time_utc = hours * 3600, no2 = v, o3 = v \<rparr>"

definition tempo_data_example :: "string \<rightharpoonup> tempo_pixel list" where
  "tempo_data_example =
     [''NYC'' \<mapsto> [tempo_pixel_example 1 11, tempo_pixel_example 0 12, tempo_pixel_example 0 13]]"

section \<open>Theorems\<close>

subsection \<open>The first minimum\<close>

lemma idxmin_mem: "idxmin f b xs \<in> set (b # xs)"
  by (induction xs arbitrary: b) auto

lemma idxmin_le: "x \<in> set (b # xs) \<Longrightarrow> f (idxmin f b xs) \<le> f x"
proof (induction xs arbitrary: b x)
  case Nil then show ?case by simp
next
  case (Cons y ys)
  let ?b' = "if f y < f b then y else b"
  have r: "f (idxmin f b (y # ys)) \<le> f ?b'"
    using Cons.IH [of ?b' ?b'] by simp
  from Cons.prems consider "x = b" | "x = y" | "x \<in> set ys" by auto
  then show ?case
  proof cases
    case 1 with r show ?thesis by (auto split: if_splits)
  next
    case 2 with r show ?thesis by (auto split: if_splits)
  next
    case 3 then show ?thesis using Cons.IH [of x ?b'] by simp
  qed
qed

lemma idxmin_cases: "idxmin f b xs = b \<or> (idxmin f b xs \<in> set xs \<and> f (idxmin f b xs) < f b)"
proof (induction xs arbitrary: b)
  case Nil then show ?case by simp
next
  case (Cons y ys)
  show ?case
  proof (cases "f y < f b")
    case True
    then show ?thesis using Cons.IH [of y] by auto
  next
    case False
    then show ?thesis using Cons.IH [of b] by auto
  qed
qed

lemma idxmin_first:
  "\<forall>x \<in> set xs. k b < k x \<Longrightarrow> sorted_wrt (\<lambda>a c. k a < k c) xs \<Longrightarrow>
   x \<in> set (b # xs) \<Longrightarrow> f x = f (idxmin f b xs) \<Longrightarrow> (k (idxmin f b xs) :: nat) \<le> k x"
proof (induction xs arbitrary: b)
  case Nil then show ?case by simp
next
  case (Cons y ys)
  show ?case
  proof (cases "f y < f b")
    case True
    have le: "f (idxmin f y ys) \<le> f y" using idxmin_le [of y y ys f] by simp
    have "x \<noteq> b" using Cons.prems(4) True le by auto
    then have "x \<in> set (y # ys)" using Cons.prems(3) by auto
    moreover have "\<forall>x \<in> set ys. k y < k x" using Cons.prems(2) by auto
    moreover have "sorted_wrt (\<lambda>a c. k a < k c) ys" using Cons.prems(2) by auto
    ultimately show ?thesis using Cons.IH [of y] Cons.prems(4) True by simp
  next
    case False
    have m: "idxmin f b ys \<in> set (b # ys)" by (rule idxmin_mem)
    have kb: "\<forall>x \<in> set ys. k b < k x" using Cons.prems(1) by auto
    have s: "sorted_wrt (\<lambda>a c. k a < k c) ys" using Cons.prems(2) by auto
    show ?thesis
    proof (cases "x = y")
      case True
      have "f b \<le> f (idxmin f b ys)" using Cons.prems(4) True False by simp
      then have "idxmin f b ys = b" using idxmin_cases [of f b ys] by auto
      then show ?thesis using False True Cons.prems(1) by simp
    next
      case F2: False
      then have "x \<in> set (b # ys)" using Cons.prems(3) by auto
      then show ?thesis using Cons.IH [of b] kb s Cons.prems(4) False by simp
    qed
  qed
qed

subsection \<open>The matcher of \<^verbatim>\<open>scientific_validation.py\<close>\<close>

lemma idx_distances_to: "map idx (distances_to g ps) = [0..<length ps]"
  unfolding distances_to_def
  by (simp add: comp_def case_prod_unfold)

lemma sorted_idx_filter:
  "sorted_wrt (\<lambda>a c. idx a < idx c) (filter P (distances_to g ps))"
proof -
  have "sorted_wrt (<) (map idx (distances_to g ps))"
    by (simp add: idx_distances_to)
  then have "sorted_wrt (\<lambda>a c. idx a < idx c) (distances_to g ps)"
    by (simp add: sorted_wrt_map)
  then show ?thesis by (rule sorted_wrt_filter)
qed

lemma matched_filter:
  "filter (\<lambda>c. tdiff c \<le> w) (filter (\<lambda>c. dist c \<le> r) cs) = filter (\<lambda>c. dist c \<le> r \<and> tdiff c \<le> w) cs"
  by (induction cs) auto

lemma match_ground_row_None_iff:
  "match_ground_row r w cty reg ps g = None \<longleftrightarrow>
     \<not> (\<exists>c \<in> set (distances_to g ps). dist c \<le> r \<and> tdiff c \<le> w)"
  unfolding match_ground_row_def Let_def
  by (auto simp: filter_empty_conv)

lemma match_ground_row_best:
  assumes "\<exists>c \<in> set (distances_to g ps). dist c \<le> r \<and> tdiff c \<le> w"
  shows "\<exists>best \<in> set (distances_to g ps).
           dist best \<le> r \<and> tdiff best \<le> w
         \<and> match_ground_row r w cty reg ps g = Some (make_pair g cty reg best)
         \<and> (\<forall>c \<in> set (distances_to g ps). dist c \<le> r \<and> tdiff c \<le> w \<longrightarrow>
               combined_score best \<le> combined_score c
             \<and> (combined_score c = combined_score best \<longrightarrow> idx best \<le> idx c))"
proof -
  define matched where "matched = filter (\<lambda>c. dist c \<le> r \<and> tdiff c \<le> w) (distances_to g ps)"
  define best where "best = idxmin combined_score (hd matched) (tl matched)"
  have ne: "matched \<noteq> []" using assms by (auto simp: matched_def filter_empty_conv)
  then have ht: "hd matched # tl matched = matched" by simp
  have nearby_ne: "filter (\<lambda>c. dist c \<le> r) (distances_to g ps) \<noteq> []"
    using assms by (auto simp: filter_empty_conv)
  have m: "match_ground_row r w cty reg ps g = Some (make_pair g cty reg best)"
    unfolding match_ground_row_def Let_def best_def matched_def
    using nearby_ne ne by (simp add: matched_filter matched_def)
  have mem: "best \<in> set matched"
    using idxmin_mem [of combined_score "hd matched" "tl matched"] ht by (simp add: best_def)
  have "sorted_wrt (\<lambda>a c. idx a < idx c) matched"
    unfolding matched_def by (rule sorted_idx_filter)
  then have srt: "sorted_wrt (\<lambda>a c. idx a < idx c) (hd matched # tl matched)"
    by (simp only: ht)
  have le: "combined_score best \<le> combined_score c" if "c \<in> set matched" for c
    using idxmin_le [of c "hd matched" "tl matched" combined_score] that ht by (simp add: best_def)
  have srt1: "\<forall>x \<in> set (tl matched). idx (hd matched) < idx x"
    and srt2: "sorted_wrt (\<lambda>a c. idx a < idx c) (tl matched)"
    using srt by simp_all
  have first: "idx best \<le> idx c" if "c \<in> set matched" "combined_score c = combined_score best" for c
  proof -
    have "c \<in> set (hd matched # tl matched)" using that(1) by (simp only: ht)
    then show ?thesis
      unfolding best_def using that(2) srt1 srt2
      by (intro idxmin_first) (simp_all add: best_def)
  qed
  show ?thesis
    using m mem le first by (intro bexI [of _ best]) (auto simp: matched_def)
qed

lemma match_ground_row_Some:
  assumes "match_ground_row r w cty reg ps g = Some m"
  shows "\<exists>best \<in> set (distances_to g ps). dist best \<le> r \<and> tdiff best \<le> w \<and> m = make_pair g cty reg best"
proof -
  have "\<exists>c \<in> set (distances_to g ps). dist c \<le> r \<and> tdiff c \<le> w"
    using assms match_ground_row_None_iff [of r w cty reg ps g] by auto
  from match_ground_row_best [OF this, of cty reg] assms show ?thesis by auto
qed

lemma match_ground_row_bounds:
  "match_ground_row r w cty reg ps g = Some m \<Longrightarrow> distance_km m \<le> r \<and> time_diff_hours m \<le> w"
  by (auto dest!: match_ground_row_Some simp: make_pair_def)

lemma match_city_mem:
  "m \<in> set (match_city r w tempo_data grp) \<Longrightarrow>
     \<exists>reg ps g. tempo_region_of (fst grp) = Some reg \<and> tempo_data reg = Some ps \<and> g \<in> set (snd grp)
        \<and> match_ground_row r w (fst grp) reg ps g = Some m"
  unfolding match_city_def
  by (cases "tempo_region_of (fst grp)"; cases "tempo_data (the (tempo_region_of (fst grp)))")
     (auto simp: List.map_filter_def)

lemma scientific_bounds:
  "m \<in> set (scientific_spatial_temporal_matching ground_data tempo_data r w) \<Longrightarrow>
     distance_km m \<le> r \<and> time_diff_hours m \<le> w"
  unfolding scientific_spatial_temporal_matching_def
  by (auto dest!: match_city_mem match_ground_row_bounds)

lemma length_map_filter_mono:
  "\<forall>x \<in> set xs. f x \<noteq> None \<longrightarrow> h x \<noteq> None \<Longrightarrow>
     length (List.map_filter f xs) \<le> length (List.map_filter h xs)"
proof (induction xs)
  case Nil then show ?case by (simp add: List.map_filter_def)
next
  case (Cons a xs)
  then have IH: "length (List.map_filter f xs) \<le> length (List.map_filter h xs)" by simp
  show ?case
  proof (cases "f a")
    case None then show ?thesis using IH by (cases "h a") (simp_all add: List.map_filter_def)
  next
    case (Some y)
    then obtain z where "h a = Some z" using Cons.prems by auto
    with Some IH show ?thesis by (simp add: List.map_filter_def)
  qed
qed

lemma match_ground_row_mono:
  "r \<le> r' \<Longrightarrow> w \<le> w' \<Longrightarrow> match_ground_row r w cty reg ps g \<noteq> None \<Longrightarrow>
     match_ground_row r' w' cty reg ps g \<noteq> None"
  unfolding match_ground_row_None_iff by force

lemma match_city_mono:
  "r \<le> r' \<Longrightarrow> w \<le> w' \<Longrightarrow>
     length (match_city r w tempo_data grp) \<le> length (match_city r' w' tempo_data grp)"
  unfolding match_city_def
  by (cases "tempo_region_of (fst grp)"; cases "tempo_data (the (tempo_region_of (fst grp)))")
     (simp_all add: length_map_filter_mono match_ground_row_mono)

lemma length_concat_mono:
  "(\<And>x. x \<in> set xs \<Longrightarrow> length (f x) \<le> length (h x)) \<Longrightarrow>
     length (concat (map f xs)) \<le> length (concat (map h xs))"
  by (induction xs) (auto intro: add_mono)

lemma scientific_mono:
  "r \<le> r' \<Longrightarrow> w \<le> w' \<Longrightarrow>
     length (scientific_spatial_temporal_matching ground_data tempo_data r w)
       \<le> length (scientific_spatial_temporal_matching ground_data tempo_data r' w')"
  unfolding scientific_spatial_temporal_matching_def
  by (intro length_concat_mono match_city_mono)




subsection \<open>Haversine distance\<close>

lemma sin_half_diff_sq:
  fixes a b :: real
  shows "(sin ((a - b) / 2))\<^sup>2 = (sin ((b - a) / 2))\<^sup>2"
proof -
  have "(a - b) / 2 = - ((b - a) / 2)" by (simp add: field_simps)
  then have "sin ((a - b) / 2) = - sin ((b - a) / 2)"
    by (metis sin_minus)
  then show ?thesis by simp
qed

text \<open>
  C9: the haversine distance is symmetric in its two points, the distance of a point to
  itself is 0, and the value is \<open>6371 * 2 * arcsin (sqrt a)\<close> for the haversine term
  \<open>a\<close> of the two points in radians.
\<close>

theorem haversine_symmetric_zero:
  "haversine_distance lat1 lon1 lat2 lon2 = haversine_distance lat2 lon2 lat1 lon1
   \<and> haversine_distance lat1 lon1 lat1 lon1 = 0
   \<and> haversine_distance lat1 lon1 lat2 lon2 =
       6371 * (2 * arcsin (sqrt ((sin ((radians lat2 - radians lat1) / 2))\<^sup>2
          + cos (radians lat1) * cos (radians lat2)
            * (sin ((radians lon2 - radians lon1) / 2))\<^sup>2)))"
proof -
  have s: "haversine_distance lat1 lon1 lat2 lon2 = haversine_distance lat2 lon2 lat1 lon1"
    unfolding haversine_distance_def Let_def
    by (simp only: sin_half_diff_sq [of "radians lat2" "radians lat1"]
        sin_half_diff_sq [of "radians lon2" "radians lon1"] mult.commute [of "cos (radians lat1)"])
  have z: "haversine_distance lat1 lon1 lat1 lon1 = 0"
    by (simp add: haversine_distance_def)
  have f: "haversine_distance lat1 lon1 lat2 lon2 =
       6371 * (2 * arcsin (sqrt ((sin ((radians lat2 - radians lat1) / 2))\<^sup>2
          + cos (radians lat1) * cos (radians lat2)
            * (sin ((radians lon2 - radians lon1) / 2))\<^sup>2)))"
    by (simp add: haversine_distance_def Let_def)
  from s z f show ?thesis by blast
qed

lemma haversine_self: "haversine_distance lat lon lat lon = 0"
  by (simp add: haversine_distance_def)

lemma haversine_same_meridian:
  assumes "lat1 \<le> lat2" "lat2 - lat1 \<le> 180"
  shows "haversine_distance lat1 lon lat2 lon = 6371 * (radians lat2 - radians lat1)"
proof -
  define x where "x = (radians lat2 - radians lat1) / 2"
  have x0: "0 \<le> x" using assms(1) by (simp add: x_def radians_def divide_right_mono)
  have "radians lat2 - radians lat1 = (lat2 - lat1) * pi / 180"
    by (simp add: radians_def field_simps)
  also have "\<dots> \<le> 180 * pi / 180" using assms(2) by (intro divide_right_mono mult_right_mono) auto
  finally have x1: "x \<le> pi / 2" by (simp add: x_def)
  have "sin x \<ge> 0" using x0 x1 by (intro sin_ge_zero) (use pi_ge_zero in linarith)+
  then have "sqrt ((sin x)\<^sup>2) = sin x" by simp
  moreover have "arcsin (sin x) = x" using x0 x1 by (intro arcsin_sin) (use pi_ge_zero in linarith)+
  ultimately show ?thesis
    by (simp add: haversine_distance_def Let_def x_def)
qed

lemma haversine_half_degree: "haversine_distance 40 (- 74) (81 / 2) (- 74) = 6371 * pi / 360"
  using haversine_same_meridian [of 40 "81 / 2" "- 74"] by (simp add: radians_def)

lemma pi_bound_half_degree: "6371 * pi \<le> 54000" "6371 * pi < 43200"
  using pi_less_4 by simp_all

subsection \<open>The region matcher of \<^verbatim>\<open>advanced_validation.py\<close>\<close>

lemma region_distances_example:
  "region_distances region_ground_example
     [region_pixel_example 40 h v, region_pixel_example (81 / 2) 0 u] =
   [RegionCandidate 0 (region_pixel_example 40 h v) 0 (Some \<bar>h\<bar>),
    RegionCandidate 1 (region_pixel_example (81 / 2) 0 u) (6371 * pi / 360) (Some 0)]"
  by (simp add: region_distances_def region_ground_example_def region_pixel_example_def
      haversine_self haversine_half_degree time_diff_of_def upt_rec)

lemma quality_filter_example: "quality_filter (region_frame_example ps) = region_frame_example ps"
  by (simp add: quality_filter_def region_frame_example_def)

lemma frame_example_sel:
  "rows (region_frame_example ps) = ps"
  "columns (region_frame_example ps) =
     [''latitude'', ''longitude'', ''time'', ''no2_tropospheric_column'', ''datetime'']"
  by (simp_all add: region_frame_example_def)

lemma match_region_example:
  assumes "notna v" "np_ne v (Fin (- 999))"
  shows "match_region_temporally_and_spatially [region_ground_example]
       (region_frame_example [region_pixel_example 40 h v, region_pixel_example (81 / 2) 0 u])
     = [\<lparr> rp_city = ''Boston'', rp_region = ''NYC'', rp_ground_lat = 40, rp_ground_lon = - 74,
          rp_ground_time = Some 0, rp_ground_value = Fin 30, rp_ground_aqi = Fin 0,
          rp_ground_parameter = ''NO2'', rp_tempo_lat = 40, rp_tempo_lon = - 74,
          rp_tempo_time = ''t'', tempo_value = v,
          tempo_parameter = ''no2_tropospheric_column'', rp_distance_km = 0,
          rp_time_diff_hours = Some \<bar>h\<bar> \<rparr>]"
  using assms
  apply (simp add: match_region_temporally_and_spatially_def quality_filter_example unique_def
      List.map_filter_def)
  apply (simp add: region_ground_example_def [THEN arg_cong [where f = gr_city]])
  apply (simp add: match_region_row_def frame_example_sel region_distances_example
      pi_bound_half_degree within_hours_def Let_def)
  apply (simp add: pollutant_col_of_def get_or_def region_ground_example_def
      region_pixel_example_def frame_example_sel)
  done

lemma match_region_row_Some:
  assumes "match_region_row fr cty g = Some m"
  shows "\<exists>closest \<in> set (region_distances g (rows fr)). \<exists>col.
           r_dist closest \<le> 150
         \<and> pollutant_col_of (gr_parameter g) = Some col \<and> col \<in> set (columns fr)
         \<and> tempo_value m = px_value (r_pix closest) col
         \<and> notna (tempo_value m) \<and> np_ne (tempo_value m) (Fin (- 999))
         \<and> rp_distance_km m = r_dist closest
         \<and> rp_time_diff_hours m = r_tdiff closest
         \<and> rp_tempo_lat m = px_latitude (r_pix closest)
         \<and> rp_tempo_lon m = px_longitude (r_pix closest)
         \<and> closest = idxmin r_dist (hd (filter (\<lambda>c. r_dist c \<le> 150) (region_distances g (rows fr))))
                         (tl (filter (\<lambda>c. r_dist c \<le> 150) (region_distances g (rows fr))))"
proof -
  define nearby where "nearby = filter (\<lambda>c. r_dist c \<le> 150) (region_distances g (rows fr))"
  define closest where "closest = idxmin r_dist (hd nearby) (tl nearby)"
  have ne: "nearby \<noteq> []"
    using assms unfolding match_region_row_def Let_def nearby_def by (auto split: if_splits)
  then have "hd nearby # tl nearby = nearby" by simp
  then have "closest \<in> set nearby"
    using idxmin_mem [of r_dist "hd nearby" "tl nearby"] by (simp add: closest_def)
  then have mem: "closest \<in> set (region_distances g (rows fr))" and d: "r_dist closest \<le> 150"
    by (simp_all add: nearby_def)
  from assms obtain col where
     "pollutant_col_of (gr_parameter g) = Some col" "col \<in> set (columns fr)"
     "tempo_value m = px_value (r_pix closest) col"
     "notna (tempo_value m)" "np_ne (tempo_value m) (Fin (- 999))"
     "rp_distance_km m = r_dist closest" "rp_time_diff_hours m = r_tdiff closest"
     "rp_tempo_lat m = px_latitude (r_pix closest)" "rp_tempo_lon m = px_longitude (r_pix closest)"
    unfolding match_region_row_def Let_def nearby_def [symmetric] closest_def [symmetric]
    by (auto split: if_splits option.splits)
  with mem d show ?thesis
    unfolding closest_def nearby_def by blast
qed

lemma match_region_mem:
  "m \<in> set (match_region_temporally_and_spatially ground_region tempo_region) \<Longrightarrow>
     \<exists>g \<in> set ground_region. match_region_row (quality_filter tempo_region) (gr_city g) g = Some m"
  unfolding match_region_temporally_and_spatially_def Let_def
  by (auto simp: List.map_filter_def)

lemma np_ne_sentinel: "notna v \<Longrightarrow> np_ne v (Fin (- 999)) \<Longrightarrow> v \<noteq> NaN \<and> v \<noteq> Fin (- 999)"
  by (cases v) (auto simp: notna_def)



subsection \<open>The matchers on the concrete inputs\<close>




section \<open>Properties of the matchers\<close>

text \<open>
  C1: every emitted pair stays within the spatial radius and the temporal window. The
  matcher of \<^verbatim>\<open>scientific_validation.py\<close> keeps both bounds (\<open>scientific_bounds\<close>). The
  region matcher of \<^verbatim>\<open>advanced_validation.py\<close> does not: it checks that some pixel within
  150 km lies within 72 hours, then takes the closest pixel of all those within 150 km. On a
  ground row with a pixel at its own position 100 hours away and a pixel half a degree north
  at the same hour, the emitted pair has distance 0 and a time difference of 100 hours.
\<close>

theorem region_matcher_outside_window:
  "match_region_temporally_and_spatially [region_ground_example]
     (region_frame_example
        [region_pixel_example 40 100 (Fin 5), region_pixel_example (81 / 2) 0 (Fin 7)])
   = [\<lparr> rp_city = ''Boston'', rp_region = ''NYC'', rp_ground_lat = 40, rp_ground_lon = - 74,
        rp_ground_time = Some 0, rp_ground_value = Fin 30, rp_ground_aqi = Fin 0,
        rp_ground_parameter = ''NO2'', rp_tempo_lat = 40, rp_tempo_lon = - 74,
        rp_tempo_time = ''t'', tempo_value = Fin 5,
        tempo_parameter = ''no2_tropospheric_column'', rp_distance_km = 0,
        rp_time_diff_hours = Some 100 \<rparr>]"
  using match_region_example [of "Fin 5" 100 "Fin 7"] by (simp add: notna_def)

text \<open>
  C5: for fixed ground and satellite data, a larger spatial radius (same window) or a larger
  temporal window (same radius) never gives fewer matched pairs.
\<close>

theorem matched_count_monotone:
  "(r \<le> r' \<longrightarrow>
      length (scientific_spatial_temporal_matching ground_data tempo_data r w)
        \<le> length (scientific_spatial_temporal_matching ground_data tempo_data r' w))
   \<and> (w \<le> w' \<longrightarrow>
      length (scientific_spatial_temporal_matching ground_data tempo_data r w)
        \<le> length (scientific_spatial_temporal_matching ground_data tempo_data r w'))"
  using scientific_mono [of r r' w w ground_data tempo_data]
        scientific_mono [of r r w w' ground_data tempo_data] by simp

theorem matched_count_monotone_witness:
  "length (scientific_spatial_temporal_matching [ground_example] tempo_data_example 10 1)
     \<le> length (scientific_spatial_temporal_matching [ground_example] tempo_data_example 20 1)
   \<and> length (scientific_spatial_temporal_matching [ground_example] tempo_data_example 20 1)
     \<le> length (scientific_spatial_temporal_matching [ground_example] tempo_data_example 20 3)"
  using matched_count_monotone [of 10 20 "[ground_example]" tempo_data_example 1 1]
        matched_count_monotone [of 20 20 "[ground_example]" tempo_data_example 1 3]
  by simp




lemma match_region_row_dropped:
  assumes "pollutant_col_of (gr_parameter g) = Some col"
    and "isnan (px_value (r_pix (idxmin r_dist
            (hd (filter (\<lambda>c. r_dist c \<le> 150) (region_distances g (rows fr))))
            (tl (filter (\<lambda>c. r_dist c \<le> 150) (region_distances g (rows fr)))))) col)
       \<or> px_value (r_pix (idxmin r_dist
            (hd (filter (\<lambda>c. r_dist c \<le> 150) (region_distances g (rows fr))))
            (tl (filter (\<lambda>c. r_dist c \<le> 150) (region_distances g (rows fr)))))) col = Fin (- 999)"
  shows "match_region_row fr cty g = None"
  using assms unfolding match_region_row_def Let_def
  by (auto simp: notna_def)

lemma mset_map_filter_cong:
  "(\<And>x. x \<in> set xs \<Longrightarrow> f x = h x) \<Longrightarrow> List.map_filter f xs = List.map_filter h xs"
  by (induction xs) (auto simp: List.map_filter_def)

lemma mset_map_filter_split:
  assumes "\<And>x. \<not> (P x \<and> Q x)"
  shows "mset (List.map_filter f (filter (\<lambda>x. P x \<or> Q x) xs))
       = mset (List.map_filter f (filter P xs)) + mset (List.map_filter f (filter Q xs))"
  using assms by (induction xs) (auto simp: map_filter_simps split: option.splits)

lemma mset_concat_groups:
  assumes "distinct cs"
  shows "mset (concat (map (\<lambda>c. List.map_filter (f c) (filter (\<lambda>g. k g = c) xs)) cs))
       = mset (List.map_filter (\<lambda>g. f (k g) g) (filter (\<lambda>g. k g \<in> set cs) xs))"
  using assms
proof (induction cs)
  case Nil then show ?case by (simp add: map_filter_simps)
next
  case (Cons c cs)
  have d: "\<And>g. \<not> (k g = c \<and> k g \<in> set cs)" using Cons.prems by auto
  have e: "List.map_filter (f c) (filter (\<lambda>g. k g = c) xs)
         = List.map_filter (\<lambda>g. f (k g) g) (filter (\<lambda>g. k g = c) xs)"
    by (rule mset_map_filter_cong) simp
  have "filter (\<lambda>g. k g \<in> set (c # cs)) xs = filter (\<lambda>g. k g = c \<or> k g \<in> set cs) xs"
    by (rule filter_cong) auto
  then show ?case
    using Cons mset_map_filter_split [of "\<lambda>g. k g = c" "\<lambda>g. k g \<in> set cs" "\<lambda>g. f (k g) g" xs, OF d]
    by (simp add: e)
qed

lemma region_matcher_rowwise:
  "mset (match_region_temporally_and_spatially ground_region tempo_region)
     = mset (List.map_filter (\<lambda>g. match_region_row (quality_filter tempo_region) (gr_city g) g)
               (filter (\<lambda>g. gr_city g \<noteq> ''Unknown'') ground_region))"
proof -
  let ?cs = "filter (\<lambda>c. c \<noteq> ''Unknown'') (unique (map gr_city ground_region))"
  have d: "distinct ?cs" by (simp add: unique_def)
  have "filter (\<lambda>g. gr_city g \<in> set ?cs) ground_region
      = filter (\<lambda>g. gr_city g \<noteq> ''Unknown'') ground_region"
    by (rule filter_cong) (auto simp: unique_def)
  then show ?thesis
    unfolding match_region_temporally_and_spatially_def Let_def
    using mset_concat_groups [OF d, of "match_region_row (quality_filter tempo_region)" gr_city ground_region]
    by simp
qed

lemma closest_example:
  "idxmin r_dist
     (hd (filter (\<lambda>c. r_dist c \<le> 150) (region_distances region_ground_example
            [region_pixel_example 40 h v, region_pixel_example (81 / 2) 0 u])))
     (tl (filter (\<lambda>c. r_dist c \<le> 150) (region_distances region_ground_example
            [region_pixel_example 40 h v, region_pixel_example (81 / 2) 0 u])))
   = RegionCandidate 0 (region_pixel_example 40 h v) 0 (Some \<bar>h\<bar>)"
  by (simp add: region_distances_example pi_bound_half_degree)

lemma pixel_example_value: "px_value (region_pixel_example lat h v) col = v"
  by (simp add: region_pixel_example_def)

text \<open>
  C10, as amended: no pair emitted by the region matcher has a satellite value that is NaN
  or the sentinel -999. The matcher emits, city by city, the pairs that the loop body yields
  for the ground rows of the named cities, one row at a time; and the body yields no pair for
  a row whose selected pixel, the first of least distance among the pixels within 150 km,
  holds NaN or -999 in the mapped column: the row is dropped, no other pixel is tried.
\<close>

theorem region_pairs_not_missing:
  "(\<forall>m \<in> set (match_region_temporally_and_spatially ground_region tempo_region).
      \<not> isnan (tempo_value m) \<and> tempo_value m \<noteq> NaN \<and> tempo_value m \<noteq> Fin (- 999))
   \<and> mset (match_region_temporally_and_spatially ground_region tempo_region)
       = mset (List.map_filter (\<lambda>g. match_region_row (quality_filter tempo_region) (gr_city g) g)
                 (filter (\<lambda>g. gr_city g \<noteq> ''Unknown'') ground_region))
   \<and> (pollutant_col_of (gr_parameter g) = Some col
        \<and> (isnan (px_value (r_pix (idxmin r_dist
                 (hd (filter (\<lambda>c. r_dist c \<le> 150) (region_distances g (rows fr))))
                 (tl (filter (\<lambda>c. r_dist c \<le> 150) (region_distances g (rows fr)))))) col)
           \<or> px_value (r_pix (idxmin r_dist
                 (hd (filter (\<lambda>c. r_dist c \<le> 150) (region_distances g (rows fr))))
                 (tl (filter (\<lambda>c. r_dist c \<le> 150) (region_distances g (rows fr)))))) col
               = Fin (- 999))
      \<longrightarrow> match_region_row fr cty g = None)"
proof (intro conjI ballI impI)
  fix m assume "m \<in> set (match_region_temporally_and_spatially ground_region tempo_region)"
  then obtain g where "match_region_row (quality_filter tempo_region) (gr_city g) g = Some m"
    using match_region_mem by blast
  from match_region_row_Some [OF this]
  have v: "notna (tempo_value m)" "np_ne (tempo_value m) (Fin (- 999))" by auto
  then show "\<not> isnan (tempo_value m)" by (simp add: notna_def)
  from v show "tempo_value m \<noteq> NaN" using np_ne_sentinel [of "tempo_value m"] by simp
  from v show "tempo_value m \<noteq> Fin (- 999)" using np_ne_sentinel [of "tempo_value m"] by simp
next
  show "mset (match_region_temporally_and_spatially ground_region tempo_region)
       = mset (List.map_filter (\<lambda>g. match_region_row (quality_filter tempo_region) (gr_city g) g)
                 (filter (\<lambda>g. gr_city g \<noteq> ''Unknown'') ground_region))"
    by (rule region_matcher_rowwise)
next
  assume "pollutant_col_of (gr_parameter g) = Some col
        \<and> (isnan (px_value (r_pix (idxmin r_dist
                 (hd (filter (\<lambda>c. r_dist c \<le> 150) (region_distances g (rows fr))))
                 (tl (filter (\<lambda>c. r_dist c \<le> 150) (region_distances g (rows fr)))))) col)
           \<or> px_value (r_pix (idxmin r_dist
                 (hd (filter (\<lambda>c. r_dist c \<le> 150) (region_distances g (rows fr))))
                 (tl (filter (\<lambda>c. r_dist c \<le> 150) (region_distances g (rows fr)))))) col
               = Fin (- 999))"
  then show "match_region_row fr cty g = None"
    using match_region_row_dropped [of g col fr cty] by blast
qed

theorem region_pairs_not_missing_witness:
  "map tempo_value (match_region_temporally_and_spatially [region_ground_example]
     (region_frame_example
        [region_pixel_example 40 0 (Fin 5), region_pixel_example (81 / 2) 0 (Fin 7)])) = [Fin 5]
   \<and> \<not> isnan (Fin 5) \<and> Fin 5 \<noteq> NaN \<and> Fin 5 \<noteq> Fin (- 999)
   \<and> match_region_temporally_and_spatially [region_ground_example]
        (region_frame_example
           [region_pixel_example 40 0 NaN, region_pixel_example (81 / 2) 0 (Fin 7)]) = []
   \<and> match_region_temporally_and_spatially [region_ground_example]
        (region_frame_example
           [region_pixel_example 40 0 (Fin (- 999)), region_pixel_example (81 / 2) 0 (Fin 7)]) = []"
proof -
  let ?out = "match_region_temporally_and_spatially [region_ground_example]
     (region_frame_example
        [region_pixel_example 40 0 (Fin 5), region_pixel_example (81 / 2) 0 (Fin 7)])"
  have e: "map tempo_value ?out = [Fin 5]"
    using match_region_example [of "Fin 5" 0 "Fin 7"] by (simp add: notna_def)
  then have "hd ?out \<in> set ?out" "tempo_value (hd ?out) = Fin 5" by (auto simp: map_eq_Cons_conv)
  with region_pairs_not_missing [of "[region_ground_example]" "region_frame_example
        [region_pixel_example 40 0 (Fin 5), region_pixel_example (81 / 2) 0 (Fin 7)]"] e
  have a: "map tempo_value ?out = [Fin 5]
      \<and> \<not> isnan (Fin 5) \<and> Fin 5 \<noteq> NaN \<and> Fin 5 \<noteq> Fin (- 999)"
    by fastforce
  have col: "pollutant_col_of (gr_parameter region_ground_example) = Some ''no2_tropospheric_column''"
    by (simp add: pollutant_col_of_def region_ground_example_def)
  have cty: "gr_city region_ground_example \<noteq> ''Unknown''"
    by (simp add: region_ground_example_def)
  have drop: "match_region_temporally_and_spatially [region_ground_example]
        (region_frame_example [region_pixel_example 40 0 v, region_pixel_example (81 / 2) 0 (Fin 7)]) = []"
    if v: "isnan v \<or> v = Fin (- 999)" for v
  proof -
    let ?fr = "region_frame_example [region_pixel_example 40 0 v, region_pixel_example (81 / 2) 0 (Fin 7)]"
    note t = region_pairs_not_missing [of "[region_ground_example]" ?fr region_ground_example
        "''no2_tropospheric_column''" ?fr "gr_city region_ground_example"]
    have n: "match_region_row ?fr (gr_city region_ground_example) region_ground_example = None"
      using t col v by (simp add: frame_example_sel closest_example pixel_example_value)
    have "mset (match_region_temporally_and_spatially [region_ground_example] ?fr) = {#}"
      using t cty by (simp add: quality_filter_example n map_filter_simps)
    then show ?thesis by simp
  qed
  from a drop [of NaN] drop [of "Fin (- 999)"] show ?thesis by simp
qed

text \<open>
  C10 as stated also promises a finite value; \<^verbatim>\<open>pd.notna\<close> accepts an infinity, so a
  closest pixel whose column holds \<open>+inf\<close> is emitted.
\<close>

theorem region_pairs_finite_counterexample:
  "map tempo_value (match_region_temporally_and_spatially [region_ground_example]
     (region_frame_example
        [region_pixel_example 40 0 PInf, region_pixel_example (81 / 2) 0 (Fin 7)])) = [PInf]"
  using match_region_example [of PInf 0 "Fin 7"] by (simp add: notna_def)

section \<open>Quantile mapping round trip\<close>

lemma map_value_identity:
  assumes "p10 < p50" "p50 < p90" "p10 \<noteq> 0"
  shows "map_value [p10, p50, p90] [p10, p50, p90] x = Fin x"
proof -
  consider "x \<le> p10" | "p10 < x" "x < p50" | "p50 \<le> x" "x < p90" | "x = p90" | "p90 < x" by linarith
  then show ?thesis
  proof cases
    case 1 then show ?thesis using assms by (simp add: map_value_def)
  next
    case 2 then show ?thesis using assms by (simp add: map_value_def)
  next
    case 3 then show ?thesis using assms by (simp add: map_value_def)
  next
    case 4 then show ?thesis using assms by (simp add: map_value_def)
  next
    case 5 then show ?thesis using assms by (simp add: map_value_def Let_def)
  qed
qed

lemma quantile_value_mono:
  assumes "sorted s" "s \<noteq> []" "0 \<le> h1" "h1 \<le> h2" "h2 \<le> real (length s - 1)"
  shows "s ! nat \<lfloor>h1\<rfloor> + (h1 - real (nat \<lfloor>h1\<rfloor>)) * (s ! min (nat \<lfloor>h1\<rfloor> + 1) (length s - 1) - s ! nat \<lfloor>h1\<rfloor>)
       \<le> s ! nat \<lfloor>h2\<rfloor> + (h2 - real (nat \<lfloor>h2\<rfloor>)) * (s ! min (nat \<lfloor>h2\<rfloor> + 1) (length s - 1) - s ! nat \<lfloor>h2\<rfloor>)"
proof -
  define n where "n = length s"
  define j1 where "j1 = nat \<lfloor>h1\<rfloor>"
  define j2 where "j2 = nat \<lfloor>h2\<rfloor>"
  define k1 where "k1 = min (j1 + 1) (n - 1)"
  define k2 where "k2 = min (j2 + 1) (n - 1)"
  have n: "0 < n" using assms(2) by (simp add: n_def)
  have f1: "real j1 \<le> h1" "h1 < real j1 + 1" using assms(3) unfolding j1_def by linarith+
  have h2nn: "0 \<le> h2" using assms by linarith
  have f2: "real j2 \<le> h2" "h2 < real j2 + 1" using h2nn unfolding j2_def by linarith+
  have j12: "j1 \<le> j2" unfolding j1_def j2_def using assms(4) by (simp add: floor_mono nat_mono)
  have "real j2 \<le> real (n - 1)" using f2(1) assms(5) by (simp add: n_def)
  then have j2n: "j2 \<le> n - 1" by simp
  then have b: "j1 < n" "j2 < n" "k1 < n" "k2 < n" using n j12 by (auto simp: k1_def k2_def)
  have s1: "s ! j1 \<le> s ! k1" using assms(1) b by (intro sorted_nth_mono) (auto simp: k1_def n_def)
  have s2: "s ! j2 \<le> s ! k2" using assms(1) b by (intro sorted_nth_mono) (auto simp: k2_def n_def)
  let ?v1 = "s ! j1 + (h1 - real j1) * (s ! k1 - s ! j1)"
  let ?v2 = "s ! j2 + (h2 - real j2) * (s ! k2 - s ! j2)"
  have up1: "?v1 \<le> s ! k1"
  proof -
    have "(h1 - real j1) * (s ! k1 - s ! j1) \<le> 1 * (s ! k1 - s ! j1)"
      using f1 s1 by (intro mult_right_mono) auto
    then show ?thesis by simp
  qed
  have lo2: "s ! j2 \<le> ?v2"
    using f2 s2 by (simp add: mult_nonneg_nonneg)
  show ?thesis
  proof (cases "j1 = j2")
    case True
    then have "k1 = k2" by (simp add: k1_def k2_def)
    have "(h1 - real j1) * (s ! k1 - s ! j1) \<le> (h2 - real j1) * (s ! k1 - s ! j1)"
      using assms(4) s1 by (intro mult_right_mono) auto
    then show ?thesis
      using True \<open>k1 = k2\<close> unfolding j1_def [symmetric] j2_def [symmetric] k1_def [symmetric] k2_def [symmetric] n_def [symmetric]
      by simp
  next
    case False
    then have "j1 + 1 \<le> j2" using j12 by simp
    then have "k1 \<le> j2" using j2n by (simp add: k1_def)
    then have "s ! k1 \<le> s ! j2" using assms(1) b by (intro sorted_nth_mono) (auto simp: n_def)
    with up1 lo2 show ?thesis
      unfolding j1_def [symmetric] j2_def [symmetric] k1_def [symmetric] k2_def [symmetric] n_def [symmetric]
      by linarith
  qed
qed

lemma np_quantile_mono:
  assumes "np_quantile a q1 = Some v1" "np_quantile a q2 = Some v2" "0 \<le> q1" "q1 \<le> q2" "q2 \<le> 1"
  shows "v1 \<le> v2"
proof -
  have ne: "a \<noteq> []" using assms(1) by (auto simp: np_quantile_def split: if_splits)
  let ?s = "sort a"
  let ?n1 = "real (length a - 1)"
  have l: "length ?s - 1 = length a - 1" by simp
  have "q2 * ?n1 \<le> 1 * ?n1" using assms(5) by (intro mult_right_mono) auto
  then have c: "q2 * ?n1 \<le> real (length ?s - 1)" by simp
  have a0: "0 \<le> q1 * ?n1" using assms(3) by simp
  have a1: "q1 * ?n1 \<le> q2 * ?n1" using assms(4) by (intro mult_right_mono) auto
  have "length ?s = length a" by simp
  then have "sorted ?s" "?s \<noteq> []" using ne by (simp, metis length_0_conv)
  from quantile_value_mono [OF this a0 a1 c] assms(1,2) ne
  show ?thesis by (simp add: np_quantile_def Let_def)
qed

text \<open>
  C6: for a dataset \<open>g\<close> whose 10th, 50th and 90th percentiles are distinct and whose 10th
  percentile is not zero, the quantile mapping fitted on \<open>(g, g)\<close> returns every value of \<open>g\<close>
  unchanged; the mapping function is the identity on every input, in each of its three
  branches (ratio scaling up to p10, interpolation up to p90, extrapolation above).
\<close>

theorem quantile_mapping_round_trip:
  assumes "np_quantile g (1 / 10) = Some p10" "np_quantile g (5 / 10) = Some p50"
    "np_quantile g (9 / 10) = Some p90"
    and "p10 \<noteq> p50" "p50 \<noteq> p90" "p10 \<noteq> 0"
  shows "quantile_mapping g g = Some (map Fin g, [p10, p50, p90], [p10, p50, p90])
       \<and> (\<forall>x. map_value [p10, p50, p90] [p10, p50, p90] x = Fin x)"
proof -
  have "p10 \<le> p50" using np_quantile_mono [OF assms(1) assms(2)] by simp
  moreover have "p50 \<le> p90" using np_quantile_mono [OF assms(2) assms(3)] by simp
  ultimately have lt: "p10 < p50" "p50 < p90" using assms(4,5) by simp_all
  have id: "map_value [p10, p50, p90] [p10, p50, p90] x = Fin x" for x
    using lt assms(6) by (rule map_value_identity)
  have q: "quantiles3 g = Some [p10, p50, p90]"
    using assms(1-3) by (simp add: quantiles3_def)
  have "map (map_value [p10, p50, p90] [p10, p50, p90]) g = map Fin g"
    by (rule map_cong) (simp_all add: id)
  with q id show ?thesis by (simp add: quantile_mapping_def)
qed

lemma quantile_example:
  "np_quantile [1, 2, 3, 4, 5, 6, 7, 8, 9, 10, 11] (1 / 10) = Some 2"
  "np_quantile [1, 2, 3, 4, 5, 6, 7, 8, 9, 10, 11] (5 / 10) = Some 6"
  "np_quantile [1, 2, 3, 4, 5, 6, 7, 8, 9, 10, 11] (9 / 10) = Some 10"
  by (simp_all add: np_quantile_def Let_def)

theorem quantile_mapping_round_trip_witness:
  "quantile_mapping [1, 2, 3, 4, 5, 6, 7, 8, 9, 10, 11] [1, 2, 3, 4, 5, 6, 7, 8, 9, 10, 11]
     = Some (map Fin [1, 2, 3, 4, 5, 6, 7, 8, 9, 10, 11], [2, 6, 10], [2, 6, 10])
   \<and> map_value [2, 6, 10] [2, 6, 10] 1 = Fin 1
   \<and> map_value [2, 6, 10] [2, 6, 10] 7 = Fin 7
   \<and> map_value [2, 6, 10] [2, 6, 10] 11 = Fin 11"
  using quantile_mapping_round_trip [OF quantile_example, simplified]
  by simp

section \<open>Permutation test p-value\<close>


lemma count_ratio_bounds:
  assumes "0 < n" "length rs = n"
  shows "0 \<le> real (length (filter P rs)) / real n" "real (length (filter P rs)) / real n \<le> 1"
proof -
  have "length (filter P rs) \<le> n" using assms(2) length_filter_le [of P rs] by simp
  then show "real (length (filter P rs)) / real n \<le> 1" using assms(1) by simp
  show "0 \<le> real (length (filter P rs)) / real n" by simp
qed

lemma finite_values_map_Fin: "finite_values (map Fin xs) = xs"
  by (induction xs) (simp_all add: finite_values_def)

lemma is_finite_map_Fin: "\<not> (\<exists>v \<in> set (map Fin xs). \<not> is_finite v)"
  by (auto simp: is_finite_def)

lemma r2_score_finite:
  "length y_true = length y_pred \<Longrightarrow> 2 \<le> length y_true \<Longrightarrow> \<exists>v. r2_score y_true y_pred = Inr (Fin v)"
  by (auto simp: r2_score_def Let_def)

lemma plt_hist_finite:
  "\<forall>v \<in> set rs. \<exists>r. v = Fin r \<Longrightarrow> plt_hist rs = Inr ()"
proof -
  assume a: "\<forall>v \<in> set rs. \<exists>r. v = Fin r"
  then have i: "\<not> (\<exists>v \<in> set rs. isinf v)" by auto
  have "rs \<noteq> [] \<Longrightarrow> filter (\<lambda>v. \<not> isnan v) rs \<noteq> []"
  proof -
    assume "rs \<noteq> []"
    then obtain v where v: "v \<in> set rs" by (cases rs) auto
    with a have "\<not> isnan v" by auto
    with v show ?thesis by (auto simp: filter_empty_conv)
  qed
  with i show ?thesis by (auto simp: plt_hist_def)
qed

lemma permuted_scores_finite:
  assumes "\<forall>s. mset (fst (permutation s ground)) = mset ground"
    and "length ground = length tempo" "2 \<le> length ground"
  shows "\<exists>rs s'. permuted_scores permutation n s ground tempo = Inr (rs, s')
           \<and> length rs = n
           \<and> (\<forall>v \<in> set rs. \<exists>r. v = Fin r)
           \<and> map Inr rs = map (\<lambda>g. r2_score g tempo) (shuffles permutation n s ground)"
proof (induction n arbitrary: s)
  case 0 then show ?case by simp
next
  case (Suc n)
  obtain sh s1 where p: "permutation s ground = (sh, s1)" by (cases "permutation s ground")
  have "mset sh = mset ground" using assms(1) p by (metis fst_conv)
  then have "length sh = length ground" by (metis size_mset)
  then have "length sh = length tempo" "2 \<le> length sh" using assms(2,3) by auto
  then obtain v where v: "r2_score sh tempo = Inr (Fin v)" using r2_score_finite by blast
  from Suc [of s1] obtain rs s' where
    "permuted_scores permutation n s1 ground tempo = Inr (rs, s')" "length rs = n"
    "\<forall>v \<in> set rs. \<exists>r. v = Fin r"
    "map Inr rs = map (\<lambda>g. r2_score g tempo) (shuffles permutation n s1 ground)" by blast
  with p v show ?case by simp
qed

text \<open>
  C7, as amended: for paired samples of at least two finite values and a permutation count
  \<open>n \<ge> 1\<close>, the test scores each shuffled copy of the ground values against the unshuffled
  satellite values, draws its plot and returns; its p-value is the number of the \<open>n\<close> shuffled
  scores that are at least the observed score, divided by \<open>n\<close>, and lies in \<open>[0, 1]\<close>.
\<close>

theorem permutation_p_value:
  assumes "\<forall>s. mset (fst (permutation s ground)) = mset ground"
    and "length ground = length tempo" "2 \<le> length ground" "0 < n"
  shows "\<exists>r2 rs s'.
           r2_score ground tempo = Inr r2
         \<and> map Inr rs = map (\<lambda>g. r2_score g tempo) (shuffles permutation (nat n) s ground)
         \<and> length rs = nat n
         \<and> permutation_test permutation s (map Fin ground) (map Fin tempo) n =
             Inr (\<lparr> real_r2 = r2,
                    p_value = Fin (real (length (filter (\<lambda>r. np_le r2 r) rs)) / real_of_int n) \<rparr>, s')
         \<and> 0 \<le> real (length (filter (\<lambda>r. np_le r2 r) rs)) / real_of_int n
         \<and> real (length (filter (\<lambda>r. np_le r2 r) rs)) / real_of_int n \<le> 1"
proof -
  obtain v where r2: "r2_score ground tempo = Inr (Fin v)"
    using r2_score_finite [OF assms(2,3)] by blast
  from permuted_scores_finite [of permutation ground tempo "nat n" s] assms(1-3)
  obtain rs s' where rs: "permuted_scores permutation (nat n) s ground tempo = Inr (rs, s')"
    "length rs = nat n" "\<forall>v \<in> set rs. \<exists>r. v = Fin r"
    "map Inr rs = map (\<lambda>g. r2_score g tempo) (shuffles permutation (nat n) s ground)" by blast
  have h: "plt_hist rs = Inr ()" using rs(3) by (rule plt_hist_finite)
  have n: "0 < nat n" "real (nat n) = real_of_int n" using assms(4) by simp_all
  have ne: "real_of_int n \<noteq> 0" using assms(4) by simp
  have pt: "permutation_test permutation s (map Fin ground) (map Fin tempo) n =
             Inr (\<lparr> real_r2 = Fin v,
                    p_value = Fin (real (length (filter (\<lambda>r. np_le (Fin v) r) rs)) / real_of_int n) \<rparr>, s')"
    using r2 rs(1) h ne
    by (simp add: permutation_test_def finite_values_map_Fin is_finite_map_Fin del: set_map)
  have b: "0 \<le> real (length (filter (\<lambda>r. np_le (Fin v) r) rs)) / real_of_int n"
      "real (length (filter (\<lambda>r. np_le (Fin v) r) rs)) / real_of_int n \<le> 1"
    using count_ratio_bounds [OF n(1) rs(2), of "\<lambda>r. np_le (Fin v) r"] n(2) by simp_all
  from r2 rs(2,4) pt b show ?thesis by blast
qed

theorem permutation_p_value_witness:
  "permutation_test reversing_permutation 0 (map Fin [1, 2, 3]) (map Fin [1, 2, 4]) 2
     = Inr (\<lparr> real_r2 = Fin (1 / 2), p_value = Fin 0 \<rparr>, 2)
   \<and> (0 :: real) \<le> 0 \<and> (0 :: real) \<le> 1"
proof -
  have h: "\<forall>s. mset (fst (reversing_permutation s [1, 2, 3])) = mset [1, 2, 3 :: real]"
    by (simp add: reversing_permutation_def)
  have e: "permutation_test reversing_permutation 0 (map Fin [1, 2, 3]) (map Fin [1, 2, 4]) 2
     = Inr (\<lparr> real_r2 = Fin (1 / 2), p_value = Fin 0 \<rparr>, 2)"
    by (simp add: permutation_test_def r2_score_def mean_def Let_def power2_eq_square
        reversing_permutation_def plt_hist_def eval_nat_numeral finite_values_def is_finite_def)
  from permutation_p_value [of reversing_permutation "[1, 2, 3]" "[1, 2, 4]" 2 0] h
  obtain r2 rs s' where pt:
    "permutation_test reversing_permutation 0 (map Fin [1, 2, 3]) (map Fin [1, 2, 4]) 2 =
             Inr (\<lparr> real_r2 = r2,
                    p_value = Fin (real (length (filter (\<lambda>r. np_le r2 r) rs)) / real_of_int 2) \<rparr>, s')"
    and b: "0 \<le> real (length (filter (\<lambda>r. np_le r2 r) rs)) / real_of_int 2"
    "real (length (filter (\<lambda>r. np_le r2 r) rs)) / real_of_int 2 \<le> 1"
    by auto
  from pt e have "real (length (filter (\<lambda>r. np_le r2 r) rs)) / real_of_int 2 = 0"
    by (simp only: sum.inject prod.inject permutation_result.simps npfloat.inject) simp
  with b e show ?thesis by simp
qed

text \<open>
  C7 as stated covers every permutation count and every paired input. With a count of 0 no
  score is drawn and the p-value is the float quotient \<open>0 / 0\<close>, which is NaN. On empty
  samples, and on a sample that holds a NaN, \<^verbatim>\<open>r2_score\<close> raises before any p-value is
  computed. On a single pair every score is NaN, and the histogram raises before the
  function returns.
\<close>

theorem permutation_p_value_counterexample:
  "permutation_test reversing_permutation 0 [Fin 1, Fin 2, Fin 3] [Fin 1, Fin 2, Fin 4] 0
     = Inr (\<lparr> real_r2 = Fin (1 / 2), p_value = NaN \<rparr>, 0)
   \<and> permutation_test reversing_permutation 0 [] [] 1000 = Inl ValueError
   \<and> permutation_test reversing_permutation 0 [Fin 1] [Fin 1] 2 = Inl ValueError
   \<and> permutation_test reversing_permutation 0 [Fin 1, NaN, Fin 3] [Fin 1, Fin 2, Fin 4] 1000
       = Inl ValueError"
  by (simp add: permutation_test_def r2_score_def mean_def Let_def power2_eq_square
      reversing_permutation_def plt_hist_def eval_nat_numeral finite_values_def is_finite_def)

section \<open>The variance ratio of the Deming regression\<close>

lemma np_insort_Fin: "np_insort (Fin x) (map Fin ys) = map Fin (insort x ys)"
  by (induction ys) auto

lemma np_sort_Fin: "np_sort (map Fin xs) = map Fin (sort xs)"
proof -
  have "foldr np_insort (map Fin xs) [] = map Fin (foldr insort xs [])"
    by (induction xs) (simp_all add: np_insort_Fin)
  then show ?thesis by (simp add: np_sort_def sort_key_def)
qed

lemma no_nan_Fin: "\<not> (\<exists>v \<in> set (map Fin xs). isnan v)"
  by auto

lemma np_median_Fin:
  assumes "xs \<noteq> []"
  shows "np_median (map Fin xs) = Fin (median xs)"
proof -
  let ?n = "length xs"
  have n: "0 < ?n" using assms by simp
  have "?n div 2 < ?n" using n by simp
  then have k: "?n div 2 < length (sort xs)" "?n div 2 - 1 < length (sort xs)" by simp_all
  have "np_median (map Fin xs) =
      (if odd ?n then map Fin (sort xs) ! (?n div 2)
       else np_div (np_add (map Fin (sort xs) ! (?n div 2 - 1)) (map Fin (sort xs) ! (?n div 2))) (Fin 2))"
    using assms no_nan_Fin [of xs] by (simp add: np_median_def np_sort_Fin Let_def del: set_map)
  also have "\<dots> = Fin (median xs)"
    using k by (simp add: median_def Let_def)
  finally show ?thesis .
qed

lemma robust_var_Fin:
  assumes "xs \<noteq> []"
  shows "robust_var (map Fin xs) = Fin (mad_variance xs)"
proof -
  have m: "map (\<lambda>v. np_abs (np_sub v (Fin (median xs)))) (map Fin xs)
         = map Fin (map (\<lambda>v. \<bar>v - median xs\<bar>) xs)"
    by (simp add: np_sub_def)
  have ne: "map (\<lambda>v. \<bar>v - median xs\<bar>) xs \<noteq> []" using assms by simp
  show ?thesis
    unfolding robust_var_def Let_def np_median_Fin [OF assms] m np_median_Fin [OF ne]
    by (simp add: mad_variance_def power2_eq_square)
qed

lemma median_nonneg:
  assumes "xs \<noteq> []" "\<forall>v \<in> set xs. 0 \<le> v"
  shows "0 \<le> median xs"
proof -
  have n: "0 < length xs" using assms(1) by simp
  have "0 \<le> sort xs ! k" if "k < length xs" for k
  proof -
    have "sort xs ! k \<in> set (sort xs)" using that by (intro nth_mem) simp
    then show ?thesis using assms(2) by simp
  qed
  moreover have "length xs div 2 < length xs" using n by simp
  moreover from this have "length xs div 2 - 1 < length xs" by simp
  ultimately have "0 \<le> sort xs ! (length xs div 2)" "0 \<le> sort xs ! (length xs div 2 - 1)"
    by blast+
  then show ?thesis by (simp add: median_def Let_def)
qed

lemma mad_variance_pos:
  assumes "xs \<noteq> []"
  shows "0 < mad_variance xs"
proof -
  have "0 \<le> median (map (\<lambda>v. \<bar>v - median xs\<bar>) xs)"
    using assms by (intro median_nonneg) auto
  then have "0 < 14826 / 10000 * (median (map (\<lambda>v. \<bar>v - median xs\<bar>) xs) + 1 / 10 ^ 9)"
    by (intro mult_pos_pos) (auto intro: add_nonneg_pos)
  then show ?thesis by (simp add: mad_variance_def)
qed

lemma clamped_range: "5 / 100 \<le> clamped l" "clamped l \<le> 20"
  by (simp_all add: clamped_def)

lemma np_clip_Fin: "np_clip (Fin l) (5 / 100) 20 = Fin (clamped l)"
  by (auto simp: np_clip_def clamped_def)

lemma clamp_lambda_Fin:
  assumes "xs \<noteq> []" "ys \<noteq> []"
  shows "clamp_lambda (map Fin xs) (map Fin ys) None =
           (Fin (clamped (lambda_estimate xs ys)),
            if lambda_estimate xs ys \<noteq> clamped (lambda_estimate xs ys) then [LambdaClamped] else [])"
proof -
  have d: "max (mad_variance ys) (1 / 10 ^ 9) \<noteq> 0"
    using mad_variance_pos [OF assms(2)] by (simp add: max_def)
  have pm: "py_max (Fin (mad_variance ys)) (Fin (1 / 10 ^ 9)) = Fin (max (mad_variance ys) (1 / 10 ^ 9))"
    by (auto simp: py_max_def max_def)
  have dv: "np_div (Fin (mad_variance xs)) (Fin (max (mad_variance ys) (1 / 10 ^ 9)))
          = Fin (lambda_estimate xs ys)"
    using d by (simp add: lambda_estimate_def)
  have ne: "np_ne (Fin a) (Fin b) = (a \<noteq> b)" for a b by simp
  show ?thesis
    unfolding clamp_lambda_def Let_def robust_var_Fin [OF assms(1)] robust_var_Fin [OF assms(2)] pm
      option.case dv np_clip_Fin ne
    by (rule refl)
qed

lemma deming_lambda:
  "fst (deming_regression polyfit minimize x y lr) = Inr res \<Longrightarrow>
     lambda_used res = fst (clamp_lambda x y lr)"
  unfolding deming_regression_def Let_def
  by (auto split: prod.splits if_splits sum.splits)

lemma deming_clamp_warning:
  "LambdaClamped \<in> set (snd (deming_regression polyfit minimize x y lr))
     \<longleftrightarrow> LambdaClamped \<in> set (snd (clamp_lambda x y lr))"
  unfolding deming_regression_def Let_def
  by (auto split: prod.splits if_splits sum.splits)

text \<open>
  C4, as amended: on non-empty finite samples with no ratio supplied, \<open>\<lambda>\<close> is estimated as
  \<open>robust_var(x) / max(robust_var(y), 1e-9)\<close>, where \<open>robust_var\<close> is the square of 1.4826
  times (the median absolute deviation plus \<open>1e-9\<close>); the \<open>\<lambda>\<close> used and returned is that value
  clamped into \<open>[0.05, 20]\<close>, and the clamp warning is printed exactly when clamping changed
  the value.
\<close>

theorem lambda_clamped_with_warning:
  assumes "xs \<noteq> []" "ys \<noteq> []"
  shows "clamp_lambda (map Fin xs) (map Fin ys) None =
           (Fin (clamped (lambda_estimate xs ys)),
            if lambda_estimate xs ys \<noteq> clamped (lambda_estimate xs ys) then [LambdaClamped] else [])
       \<and> 5 / 100 \<le> clamped (lambda_estimate xs ys) \<and> clamped (lambda_estimate xs ys) \<le> 20
       \<and> (\<forall>res. fst (deming_regression polyfit minimize (map Fin xs) (map Fin ys) None) = Inr res
             \<longrightarrow> lambda_used res = Fin (clamped (lambda_estimate xs ys)))
       \<and> (LambdaClamped \<in> set (snd (deming_regression polyfit minimize (map Fin xs) (map Fin ys) None))
             \<longleftrightarrow> lambda_estimate xs ys \<noteq> clamped (lambda_estimate xs ys))"
proof -
  note c = clamp_lambda_Fin [OF assms]
  have "lambda_used res = Fin (clamped (lambda_estimate xs ys))"
    if "fst (deming_regression polyfit minimize (map Fin xs) (map Fin ys) None) = Inr res" for res
    using deming_lambda [OF that] c by simp
  moreover have "LambdaClamped \<in> set (snd (deming_regression polyfit minimize (map Fin xs) (map Fin ys) None))
             \<longleftrightarrow> lambda_estimate xs ys \<noteq> clamped (lambda_estimate xs ys)"
    unfolding deming_clamp_warning c by simp
  ultimately show ?thesis using c clamped_range [of "lambda_estimate xs ys"] by blast
qed

lemma median_three: "a \<le> b \<Longrightarrow> b \<le> c \<Longrightarrow> median [a, b, c] = b"
  by (simp add: median_def Let_def)

lemma lambda_estimate_examples:
  "lambda_estimate [1, 2, 3] [2, 4, 6] = (1000000001 / 2000000001)\<^sup>2"
  "lambda_estimate [1, 1, 1] [1, 1, 1] = (14826 / 10000 / 10 ^ 9)\<^sup>2 * 10 ^ 9"
proof -
  have m: "median [1, 2, 3] = 2" "median [2, 4, 6] = 4" "median [1, 1, 1] = 1"
    "median [0, 0, 0] = 0"
    by (simp_all add: median_three)
  have d: "median [1, 0, 1] = 1" "median [2, 0, 2] = 2"
    by (simp_all add: median_def Let_def)
  show "lambda_estimate [1, 2, 3] [2, 4, 6] = (1000000001 / 2000000001)\<^sup>2"
    by (simp add: lambda_estimate_def mad_variance_def m d power2_eq_square)
  show "lambda_estimate [1, 1, 1] [1, 1, 1] = (14826 / 10000 / 10 ^ 9)\<^sup>2 * 10 ^ 9"
    by (simp add: lambda_estimate_def mad_variance_def m power2_eq_square)
qed

theorem lambda_clamped_with_warning_witness:
  "clamp_lambda [Fin 1, Fin 2, Fin 3] [Fin 2, Fin 4, Fin 6] None
     = (Fin ((1000000001 / 2000000001)\<^sup>2), [])
   \<and> clamp_lambda [Fin 1, Fin 1, Fin 1] [Fin 1, Fin 1, Fin 1] None = (Fin (5 / 100), [LambdaClamped])"
proof -
  have c1: "clamped ((1000000001 / 2000000001)\<^sup>2) = (1000000001 / 2000000001)\<^sup>2"
    by (simp add: clamped_def power2_eq_square)
  have c2: "clamped ((14826 / 10000 / 10 ^ 9)\<^sup>2 * 10 ^ 9) = 5 / 100"
    "(14826 / 10000 / 10 ^ 9)\<^sup>2 * 10 ^ 9 \<noteq> (5 / 100 :: real)"
    by (simp_all add: clamped_def power2_eq_square)
  from lambda_clamped_with_warning [of "[1, 2, 3]" "[2, 4, 6]"]
  have "clamp_lambda [Fin 1, Fin 2, Fin 3] [Fin 2, Fin 4, Fin 6] None
     = (Fin ((1000000001 / 2000000001)\<^sup>2), [])"
    unfolding lambda_estimate_examples c1 by simp
  moreover from lambda_clamped_with_warning [of "[1, 1, 1]" "[1, 1, 1]"]
  have "clamp_lambda [Fin 1, Fin 1, Fin 1] [Fin 1, Fin 1, Fin 1] None = (Fin (5 / 100), [LambdaClamped])"
    unfolding lambda_estimate_examples c2(1) using c2(2) by simp
  ultimately show ?thesis by blast
qed

text \<open>
  C4 as stated takes \<open>\<lambda>\<close> to be \<open>robust_var(x) / robust_var(y)\<close>. On two constant samples that
  quotient is 1, inside the range, while the code divides by \<open>max(robust_var(y), 1e-9)\<close>,
  gets about \<open>2.2e-9\<close> and returns the clamped 0.05 with the warning. It also covers every
  input: on an empty sample, or one holding a NaN, \<open>\<lambda>\<close> is NaN, which \<^verbatim>\<open>np.clip\<close> leaves as it
  is, outside the range.
\<close>

theorem lambda_clamped_with_warning_counterexample:
  "np_div (robust_var [Fin 1, Fin 1, Fin 1]) (robust_var [Fin 1, Fin 1, Fin 1]) = Fin 1
   \<and> np_clip (Fin 1) (5 / 100) 20 = Fin 1
   \<and> clamp_lambda [Fin 1, Fin 1, Fin 1] [Fin 1, Fin 1, Fin 1] None = (Fin (5 / 100), [LambdaClamped])
   \<and> clamp_lambda [] [] None = (NaN, [LambdaClamped])
   \<and> clamp_lambda [NaN] [Fin 1] None = (NaN, [LambdaClamped])"
proof -
  have r: "robust_var [Fin 1, Fin 1, Fin 1] = Fin (mad_variance [1, 1, 1])"
    using robust_var_Fin [of "[1, 1, 1]"] by simp
  have p: "0 < mad_variance [1, 1, 1]" by (rule mad_variance_pos) simp
  have c2: "clamped ((14826 / 10000 / 10 ^ 9)\<^sup>2 * 10 ^ 9) = 5 / 100"
    "(14826 / 10000 / 10 ^ 9)\<^sup>2 * 10 ^ 9 \<noteq> (5 / 100 :: real)"
    by (simp_all add: clamped_def power2_eq_square)
  have "clamp_lambda [Fin 1, Fin 1, Fin 1] [Fin 1, Fin 1, Fin 1] None = (Fin (5 / 100), [LambdaClamped])"
    using clamp_lambda_Fin [of "[1, 1, 1]" "[1, 1, 1]"]
    unfolding lambda_estimate_examples c2(1) using c2(2) by simp
  moreover have "np_div (robust_var [Fin 1, Fin 1, Fin 1]) (robust_var [Fin 1, Fin 1, Fin 1]) = Fin 1"
    unfolding r using p by simp
  moreover have "np_clip (Fin 1) (5 / 100) 20 = Fin 1" by (simp add: np_clip_def)
  moreover have "clamp_lambda [] [] None = (NaN, [LambdaClamped])"
    by (simp add: clamp_lambda_def robust_var_def np_median_def np_sort_def py_max_def
        np_clip_def Let_def)
  moreover have "clamp_lambda [NaN] [Fin 1] None = (NaN, [LambdaClamped])"
  proof -
    have a: "robust_var [NaN] = NaN"
      by (simp add: robust_var_def np_median_def np_sub_def Let_def)
    have b: "np_div NaN v = NaN" for v by (cases v) simp_all
    show ?thesis by (simp add: clamp_lambda_def a b np_clip_def Let_def)
  qed
  ultimately show ?thesis by blast
qed

section \<open>The fallback of the Deming regression\<close>

lemma finite_values_const:
  "\<forall>v \<in> set x. v = Fin c \<Longrightarrow> finite_values x = replicate (length x) c"
  by (induction x) (auto simp: finite_values_def)

lemma mean_replicate: "0 < n \<Longrightarrow> mean (replicate n c) = c"
  by (simp add: mean_def sum_list_replicate)

lemma np_var_const:
  assumes "x \<noteq> []" "\<forall>v \<in> set x. v = Fin c"
  shows "np_var x = Fin 0"
proof -
  have fv: "finite_values x = replicate (length x) c" using assms(2) by (rule finite_values_const)
  have n: "0 < length x" using assms(1) by simp
  have fin: "\<not> (\<exists>v \<in> set x. \<not> is_finite v)" using assms(2) by (auto simp: is_finite_def)
  have "(\<Sum>r \<leftarrow> replicate (length x) c. (r - c)\<^sup>2) = 0"
    by (induction "length x") (simp_all add: sum_list_replicate)
  then show ?thesis
    using assms(1) fin unfolding np_var_def Let_def fv mean_replicate [OF n] by simp
qed

lemma constant_degenerate:
  assumes "x \<noteq> []" "\<forall>v \<in> set x. v = Fin c"
  shows "degenerate x y"
  using np_var_const [OF assms] by (simp add: degenerate_def)



lemma deming_degenerate:
  assumes "degenerate x y"
  shows "deming_regression polyfit minimize x y lr =
           (Inr \<lparr> slope = fst (fallback_fit polyfit x y),
                  intercept = fst (snd (fallback_fit polyfit x y)),
                  r2 = snd (snd (fallback_fit polyfit x y)),
                  lambda_used = fst (clamp_lambda x y lr) \<rparr>,
            snd (clamp_lambda x y lr) @ [DegenerateVariance])"
  using assms by (simp add: deming_regression_def split: prod.splits)





lemma sum_list_replicate_sq: "(\<Sum>t \<leftarrow> replicate n (d :: real). (t - d)\<^sup>2) = 0"
  by (induction n) simp_all

lemma r2_score_replicate:
  assumes "2 \<le> n"
  shows "r2_score (replicate n d) (replicate n p) = Inr (Fin (if p = d then 1 else 0))"
proof -
  have n: "0 < n" using assms by simp
  have num: "(\<Sum>(t, q) \<leftarrow> zip (replicate n d) (replicate n p). (t - q)\<^sup>2) = real n * (d - p)\<^sup>2"
    by (induction n) (simp_all add: algebra_simps)
  have "real n * (d - p)\<^sup>2 = 0 \<longleftrightarrow> p = d" using n by auto
  then show ?thesis
    using assms n unfolding r2_score_def Let_def num mean_replicate [OF n] sum_list_replicate_sq
    by auto
qed

lemma clean_pairs_const:
  assumes "length x = length y" "\<forall>v \<in> set x. v = Fin c" "\<forall>v \<in> set y. v = Fin d"
  shows "clean_pairs x y = replicate (length x) (c, d)"
  using assms
proof (induction x arbitrary: y)
  case Nil then show ?case by (simp add: clean_pairs_def)
next
  case (Cons a x)
  then obtain b y' where y: "y = b # y'" by (cases y) auto
  with Cons.prems have "a = Fin c" "b = Fin d" "length x = length y'"
    "\<forall>v \<in> set x. v = Fin c" "\<forall>v \<in> set y'. v = Fin d" by auto
  with Cons.IH [of y'] y show ?case by (simp add: clean_pairs_def)
qed

lemma fallback_fit_const:
  assumes "length x = length y" "\<forall>v \<in> set x. v = Fin c" "\<forall>v \<in> set y. v = Fin d"
  shows "fallback_fit polyfit x y =
           (if length x < 2 then (1, 0, Fin 0)
            else case polyfit (replicate (length x) c) (replicate (length x) d) of
                   Inl e \<Rightarrow> (1, 0, Fin 0)
                 | Inr (s, i) \<Rightarrow> (s, i, Fin (if s * c + i = d then 1 else 0)))"
proof (cases "length x < 2")
  case True
  then show ?thesis
    using assms(1) by (simp add: fallback_fit_def clean_pairs_const [OF assms] Let_def)
next
  case False
  then have n: "2 \<le> length x" by simp
  have cp: "map fst (clean_pairs x y) = replicate (length x) c"
    "map snd (clean_pairs x y) = replicate (length x) d"
    by (simp_all add: clean_pairs_const [OF assms])
  have g: "length (replicate (length x) c) > 1" using n by simp
  show ?thesis
  proof (cases "polyfit (replicate (length x) c) (replicate (length x) d)")
    case (Inl e)
    then show ?thesis
      using False assms(1) g unfolding fallback_fit_def Let_def cp by simp
  next
    case (Inr p)
    obtain s i where p: "p = (s, i)" by (cases p)
    have m: "map (\<lambda>v. s * v + i) (replicate (length x) c) = replicate (length x) (s * c + i)"
      by simp
    have n': "2 \<le> length y" using n assms(1) by simp
    show ?thesis
      using False assms(1) g Inr
      unfolding fallback_fit_def Let_def cp p m
      by (simp add: r2_score_replicate [OF n'])
  qed
qed

lemma sum_list_zero: "\<forall>w \<in> set y. w = (0 :: real) \<Longrightarrow> sum_list y = 0"
  by (induction y) simp_all

lemma sum_list_zip_zero:
  "\<forall>w \<in> set y. w = (0 :: real) \<Longrightarrow> (\<Sum>(v, w) \<leftarrow> zip x y. v * w) = 0"
proof (induction y arbitrary: x)
  case Nil then show ?case by simp
next
  case (Cons b y) then show ?case by (cases x) simp_all
qed

lemma np_polyfit1_zero_rhs:
  assumes "x \<noteq> []" "length x = length y" "\<exists>v \<in> set x. v \<noteq> 0" "\<forall>w \<in> set y. w = 0"
  shows "np_polyfit1 (0, 0) x y = Inr (0, 0)"
  using assms(1-3)
  unfolding np_polyfit1_def Let_def sum_list_zero [OF assms(4)] sum_list_zip_zero [OF assms(4)]
  by auto







section \<open>Leave-one-city-out validation: skips and improvement\<close>

lemma loco_group_skip:
  "length (filter (\<lambda>r. rp_city r \<noteq> c) data) < 10 \<or> length (filter (\<lambda>r. rp_city r = c) data) < 5
     \<Longrightarrow> loco_group polyfit minimize data c = Inr None"
  by (simp add: loco_group_def Let_def)

lemma loco_group_Some:
  assumes "loco_group polyfit minimize data c = Inr (Some e)"
  shows "n_train e = length (filter (\<lambda>r. rp_city r \<noteq> c) data)"
    "n_test e = length (filter (\<lambda>r. rp_city r = c) data)"
    "10 \<le> n_train e" "5 \<le> n_test e"
    "rmse_improvement e = np_mul (np_div (Fin (rmse_raw e - rmse_calibrated e)) (Fin (rmse_raw e))) (Fin 100)"
  using assms unfolding loco_group_def Let_def
  by (auto split: if_splits sum.splits)

lemma loco_loop_mem:
  "loco_loop polyfit minimize data cs = Inr results \<Longrightarrow> (c, e) \<in> set results \<Longrightarrow>
     c \<in> set cs \<and> loco_group polyfit minimize data c = Inr (Some e)"
proof (induction cs arbitrary: results)
  case Nil then show ?case by simp
next
  case (Cons a cs)
  show ?case
  proof (cases "loco_group polyfit minimize data a")
    case (Inl x) with Cons.prems show ?thesis by simp
  next
    case (Inr o1)
    show ?thesis
    proof (cases o1)
      case None
      with Inr Cons show ?thesis by auto
    next
      case (Some e1)
      with Inr Cons.prems obtain rest where
        r: "loco_loop polyfit minimize data cs = Inr rest" "results = (a, e1) # rest"
        by (auto split: sum.splits)
      with Cons.prems(2) consider "(c, e) = (a, e1)" | "(c, e) \<in> set rest" by auto
      then show ?thesis
      proof cases
        case 1 then show ?thesis using Inr Some by simp
      next
        case 2 then show ?thesis using Cons.IH [OF r(1)] by simp
      qed
    qed
  qed
qed

lemma loco_loop_all_skipped:
  "\<forall>c \<in> set cs. loco_group polyfit minimize data c = Inr None \<Longrightarrow>
     loco_loop polyfit minimize data cs = Inr []"
  by (induction cs) simp_all

lemma improvement_formula:
  "raw \<noteq> 0 \<Longrightarrow> np_mul (np_div (Fin (raw - cal)) (Fin raw)) (Fin 100) = Fin ((raw - cal) / raw * 100)"
  by simp

lemma finite_values_calibrated:
  "\<forall>v \<in> set ts. is_finite v \<Longrightarrow>
     finite_values (map (\<lambda>v. np_add (np_mul (Fin s) v) (Fin i)) ts)
       = map (\<lambda>r. s * r + i) (finite_values ts)"
proof (induction ts)
  case Nil then show ?case by (simp add: finite_values_def)
next
  case (Cons v ts)
  then obtain r where "v = Fin r" by (cases v) (auto simp: is_finite_def)
  with Cons show ?case by (simp add: finite_values_def)
qed

lemma mean_squared_error_Inr:
  assumes "mean_squared_error y_true y_pred = Inr m"
  shows "(\<forall>v \<in> set y_true. is_finite v) \<and> (\<forall>v \<in> set y_pred. is_finite v)
       \<and> sqrt m = rmse (finite_values y_true) (finite_values y_pred)"
  using assms unfolding mean_squared_error_def rmse_def
  by (auto split: if_splits)

lemma loco_group_None_iff:
  "loco_group polyfit minimize data c = Inr None \<longleftrightarrow>
     length (filter (\<lambda>r. rp_city r \<noteq> c) data) < 10 \<or> length (filter (\<lambda>r. rp_city r = c) data) < 5"
  unfolding loco_group_def Let_def
  by (auto split: sum.splits)

lemma loco_group_entry:
  assumes "loco_group polyfit minimize data c = Inr (Some e)"
  shows "\<exists>fit. fst (deming_regression polyfit minimize
                   (map rp_ground_value (filter (\<lambda>r. rp_city r \<noteq> c) data))
                   (map tempo_value (filter (\<lambda>r. rp_city r \<noteq> c) data)) None) = Inr fit
           \<and> calibration_slope e = slope fit \<and> calibration_intercept e = intercept fit
           \<and> (\<forall>r \<in> set (filter (\<lambda>r. rp_city r = c) data).
                 is_finite (rp_ground_value r) \<and> is_finite (tempo_value r))
           \<and> rmse_raw e = rmse (finite_values (map rp_ground_value (filter (\<lambda>r. rp_city r = c) data)))
                              (finite_values (map tempo_value (filter (\<lambda>r. rp_city r = c) data)))
           \<and> rmse_calibrated e =
               rmse (finite_values (map rp_ground_value (filter (\<lambda>r. rp_city r = c) data)))
                    (map (\<lambda>v. slope fit * v + intercept fit)
                       (finite_values (map tempo_value (filter (\<lambda>r. rp_city r = c) data))))"
proof -
  let ?train = "filter (\<lambda>r. rp_city r \<noteq> c) data" and ?test = "filter (\<lambda>r. rp_city r = c) data"
  let ?g = "map rp_ground_value ?test" and ?t = "map tempo_value ?test"
  from assms obtain fit where
    fit: "fst (deming_regression polyfit minimize (map rp_ground_value ?train)
                 (map tempo_value ?train) None) = Inr fit"
    unfolding loco_group_def Let_def by (auto split: if_splits sum.splits)
  let ?c = "map (\<lambda>v. np_add (np_mul (Fin (slope fit)) v) (Fin (intercept fit))) ?t"
  from assms fit obtain m1 where m1: "mean_squared_error ?g ?t = Inr m1"
    unfolding loco_group_def Let_def by (auto split: if_splits sum.splits)
  from assms fit m1 obtain m2 where m2: "mean_squared_error ?g ?c = Inr m2"
    unfolding loco_group_def Let_def by (auto split: if_splits sum.splits)
  from assms fit m1 m2 have e: "rmse_raw e = sqrt m1" "rmse_calibrated e = sqrt m2"
    "calibration_slope e = slope fit" "calibration_intercept e = intercept fit"
    unfolding loco_group_def Let_def by (auto split: if_splits)
  note a = mean_squared_error_Inr [OF m1] and b = mean_squared_error_Inr [OF m2]
  have ft: "\<forall>v \<in> set ?t. is_finite v" using a by blast
  have fc: "finite_values ?c = map (\<lambda>r. slope fit * r + intercept fit) (finite_values ?t)"
    using ft by (rule finite_values_calibrated)
  have "\<forall>r \<in> set ?test. is_finite (rp_ground_value r) \<and> is_finite (tempo_value r)"
    using a by auto
  moreover have "rmse_raw e = rmse (finite_values ?g) (finite_values ?t)"
    using a e(1) by simp
  moreover have "rmse_calibrated e = rmse (finite_values ?g)
      (map (\<lambda>v. slope fit * v + intercept fit) (finite_values ?t))"
    using b e(2) fc by simp
  ultimately show ?thesis using fit e(3,4) by blast
qed

lemma loco_loop_keys:
  "loco_loop polyfit minimize data cs = Inr results \<Longrightarrow>
     map fst results = filter (\<lambda>c. loco_group polyfit minimize data c \<noteq> Inr None) cs"
proof (induction cs arbitrary: results)
  case Nil then show ?case by simp
next
  case (Cons a cs)
  show ?case
  proof (cases "loco_group polyfit minimize data a")
    case (Inl x) with Cons.prems show ?thesis by simp
  next
    case (Inr o1)
    show ?thesis
    proof (cases o1)
      case None
      with Inr Cons show ?thesis by auto
    next
      case (Some e1)
      with Inr Cons.prems obtain rest where
        r: "loco_loop polyfit minimize data cs = Inr rest" "results = (a, e1) # rest"
        by (auto split: sum.splits)
      with Cons.IH [OF r(1)] Inr Some show ?thesis by simp
    qed
  qed
qed

lemma rmse_replicate:
  assumes "0 < n"
  shows "rmse (replicate n a) (replicate n b) = \<bar>a - b\<bar>"
proof -
  have z: "map (\<lambda>(t, p). (t - p)\<^sup>2) (zip (replicate n a) (replicate n b)) = replicate n ((a - b)\<^sup>2)"
    by (induction n) simp_all
  show ?thesis unfolding rmse_def z mean_replicate [OF assms] by simp
qed

text \<open>
  C8: in the leave-one-city-out validation a city with fewer than 10 training pairs (the
  pairs of all other cities) or fewer than 5 test pairs is skipped without error and has no
  entry in the result, whose keys are the other cities in order of first appearance. The
  entry of a city reports the calibration fitted on the other cities' pairs, as
  \<open>rmse_raw\<close> the root mean squared error of the city's satellite values against its ground
  values, as \<open>rmse_calibrated\<close> that of the calibrated satellite values, and as improvement
  \<open>(rmse_raw - rmse_calibrated) / rmse_raw * 100\<close> (the float quotient; the real one when
  \<open>rmse_raw\<close> is not zero).
\<close>

theorem loco_skips_and_improvement:
  "(length (filter (\<lambda>r. rp_city r \<noteq> c) data) < 10 \<or> length (filter (\<lambda>r. rp_city r = c) data) < 5
      \<longrightarrow> loco_group polyfit minimize data c = Inr None)
   \<and> ((\<forall>c \<in> set (map rp_city data).
          length (filter (\<lambda>r. rp_city r \<noteq> c) data) < 10 \<or> length (filter (\<lambda>r. rp_city r = c) data) < 5)
      \<longrightarrow> loco_validation polyfit minimize data = Inr [])
   \<and> (loco_validation polyfit minimize data = Inr results
      \<longrightarrow> map fst results =
            filter (\<lambda>c. 10 \<le> length (filter (\<lambda>r. rp_city r \<noteq> c) data)
                      \<and> 5 \<le> length (filter (\<lambda>r. rp_city r = c) data))
              (unique (map rp_city data))
        \<and> (\<forall>(c, e) \<in> set results.
             10 \<le> length (filter (\<lambda>r. rp_city r \<noteq> c) data)
           \<and> 5 \<le> length (filter (\<lambda>r. rp_city r = c) data)
           \<and> n_train e = length (filter (\<lambda>r. rp_city r \<noteq> c) data)
           \<and> n_test e = length (filter (\<lambda>r. rp_city r = c) data)
           \<and> (\<exists>fit. fst (deming_regression polyfit minimize
                          (map rp_ground_value (filter (\<lambda>r. rp_city r \<noteq> c) data))
                          (map tempo_value (filter (\<lambda>r. rp_city r \<noteq> c) data)) None) = Inr fit
                \<and> calibration_slope e = slope fit \<and> calibration_intercept e = intercept fit
                \<and> (\<forall>r \<in> set (filter (\<lambda>r. rp_city r = c) data).
                      is_finite (rp_ground_value r) \<and> is_finite (tempo_value r))
                \<and> rmse_raw e =
                    rmse (finite_values (map rp_ground_value (filter (\<lambda>r. rp_city r = c) data)))
                         (finite_values (map tempo_value (filter (\<lambda>r. rp_city r = c) data)))
                \<and> rmse_calibrated e =
                    rmse (finite_values (map rp_ground_value (filter (\<lambda>r. rp_city r = c) data)))
                         (map (\<lambda>v. slope fit * v + intercept fit)
                            (finite_values (map tempo_value (filter (\<lambda>r. rp_city r = c) data)))))
           \<and> rmse_improvement e =
               np_mul (np_div (Fin (rmse_raw e - rmse_calibrated e)) (Fin (rmse_raw e))) (Fin 100)
           \<and> (rmse_raw e \<noteq> 0 \<longrightarrow>
                rmse_improvement e = Fin ((rmse_raw e - rmse_calibrated e) / rmse_raw e * 100))))"
proof (intro conjI impI)
  assume "length (filter (\<lambda>r. rp_city r \<noteq> c) data) < 10 \<or> length (filter (\<lambda>r. rp_city r = c) data) < 5"
  then show "loco_group polyfit minimize data c = Inr None" by (rule loco_group_skip)
next
  assume a: "\<forall>c \<in> set (map rp_city data).
          length (filter (\<lambda>r. rp_city r \<noteq> c) data) < 10 \<or> length (filter (\<lambda>r. rp_city r = c) data) < 5"
  have "set (unique (map rp_city data)) = set (map rp_city data)" by (simp add: unique_def)
  then have "\<forall>c \<in> set (unique (map rp_city data)). loco_group polyfit minimize data c = Inr None"
    using a loco_group_skip by blast
  then show "loco_validation polyfit minimize data = Inr []"
    unfolding loco_validation_def by (rule loco_loop_all_skipped)
next
  assume r: "loco_validation polyfit minimize data = Inr results"
  have "(\<lambda>c. loco_group polyfit minimize data c \<noteq> Inr None)
      = (\<lambda>c. 10 \<le> length (filter (\<lambda>r. rp_city r \<noteq> c) data)
                      \<and> 5 \<le> length (filter (\<lambda>r. rp_city r = c) data))"
    by (auto simp: loco_group_None_iff)
  then show "map fst results =
            filter (\<lambda>c. 10 \<le> length (filter (\<lambda>r. rp_city r \<noteq> c) data)
                      \<and> 5 \<le> length (filter (\<lambda>r. rp_city r = c) data))
              (unique (map rp_city data))"
    using loco_loop_keys [OF r [unfolded loco_validation_def]] by simp
next
  assume r: "loco_validation polyfit minimize data = Inr results"
  show "\<forall>(c, e) \<in> set results.
             10 \<le> length (filter (\<lambda>r. rp_city r \<noteq> c) data)
           \<and> 5 \<le> length (filter (\<lambda>r. rp_city r = c) data)
           \<and> n_train e = length (filter (\<lambda>r. rp_city r \<noteq> c) data)
           \<and> n_test e = length (filter (\<lambda>r. rp_city r = c) data)
           \<and> (\<exists>fit. fst (deming_regression polyfit minimize
                          (map rp_ground_value (filter (\<lambda>r. rp_city r \<noteq> c) data))
                          (map tempo_value (filter (\<lambda>r. rp_city r \<noteq> c) data)) None) = Inr fit
                \<and> calibration_slope e = slope fit \<and> calibration_intercept e = intercept fit
                \<and> (\<forall>r \<in> set (filter (\<lambda>r. rp_city r = c) data).
                      is_finite (rp_ground_value r) \<and> is_finite (tempo_value r))
                \<and> rmse_raw e =
                    rmse (finite_values (map rp_ground_value (filter (\<lambda>r. rp_city r = c) data)))
                         (finite_values (map tempo_value (filter (\<lambda>r. rp_city r = c) data)))
                \<and> rmse_calibrated e =
                    rmse (finite_values (map rp_ground_value (filter (\<lambda>r. rp_city r = c) data)))
                         (map (\<lambda>v. slope fit * v + intercept fit)
                            (finite_values (map tempo_value (filter (\<lambda>r. rp_city r = c) data)))))
           \<and> rmse_improvement e =
               np_mul (np_div (Fin (rmse_raw e - rmse_calibrated e)) (Fin (rmse_raw e))) (Fin 100)
           \<and> (rmse_raw e \<noteq> 0 \<longrightarrow>
                rmse_improvement e = Fin ((rmse_raw e - rmse_calibrated e) / rmse_raw e * 100))"
  proof (clarify, intro conjI impI)
    fix c e assume m: "(c, e) \<in> set results"
    from loco_loop_mem [OF r [unfolded loco_validation_def] m]
    have g: "loco_group polyfit minimize data c = Inr (Some e)" by simp
    note s = loco_group_Some [OF g]
    show "10 \<le> length (filter (\<lambda>r. rp_city r \<noteq> c) data)" using s(1,3) by simp
    show "5 \<le> length (filter (\<lambda>r. rp_city r = c) data)" using s(2,4) by simp
    show "n_train e = length (filter (\<lambda>r. rp_city r \<noteq> c) data)" by (rule s(1))
    show "n_test e = length (filter (\<lambda>r. rp_city r = c) data)" by (rule s(2))
    show "\<exists>fit. fst (deming_regression polyfit minimize
                          (map rp_ground_value (filter (\<lambda>r. rp_city r \<noteq> c) data))
                          (map tempo_value (filter (\<lambda>r. rp_city r \<noteq> c) data)) None) = Inr fit
                \<and> calibration_slope e = slope fit \<and> calibration_intercept e = intercept fit
                \<and> (\<forall>r \<in> set (filter (\<lambda>r. rp_city r = c) data).
                      is_finite (rp_ground_value r) \<and> is_finite (tempo_value r))
                \<and> rmse_raw e =
                    rmse (finite_values (map rp_ground_value (filter (\<lambda>r. rp_city r = c) data)))
                         (finite_values (map tempo_value (filter (\<lambda>r. rp_city r = c) data)))
                \<and> rmse_calibrated e =
                    rmse (finite_values (map rp_ground_value (filter (\<lambda>r. rp_city r = c) data)))
                         (map (\<lambda>v. slope fit * v + intercept fit)
                            (finite_values (map tempo_value (filter (\<lambda>r. rp_city r = c) data))))"
      by (rule loco_group_entry [OF g])
    show i: "rmse_improvement e =
               np_mul (np_div (Fin (rmse_raw e - rmse_calibrated e)) (Fin (rmse_raw e))) (Fin 100)"
      by (rule s(5))
    assume "rmse_raw e \<noteq> 0"
    then show "rmse_improvement e = Fin ((rmse_raw e - rmse_calibrated e) / rmse_raw e * 100)"
      unfolding i by (rule improvement_formula)
  qed
qed

lemma pair_example_sel:
  "rp_city (pair_example cty g t) = cty"
  "rp_ground_value (pair_example cty g t) = Fin g"
  "tempo_value (pair_example cty g t) = Fin t"
  by (simp_all add: pair_example_def)

lemma loco_example_cities: "unique (map rp_city loco_example) = [''A'', ''B'']"
  by (simp add: loco_example_def unique_def pair_example_sel eval_nat_numeral)

lemma loco_example_filter:
  "filter (\<lambda>r. rp_city r \<noteq> ''B'') loco_example = replicate 10 (pair_example ''A'' 5 0)"
  "filter (\<lambda>r. rp_city r = ''B'') loco_example = replicate 5 (pair_example ''B'' 3 5)"
  "filter (\<lambda>r. rp_city r \<noteq> ''A'') loco_example = replicate 5 (pair_example ''B'' 3 5)"
  "filter (\<lambda>r. rp_city r = ''A'') loco_example = replicate 10 (pair_example ''A'' 5 0)"
  by (simp_all add: loco_example_def pair_example_sel)

lemma finite_values_replicate: "finite_values (replicate n (Fin a)) = replicate n a"
  using finite_values_const [of "replicate n (Fin a)" a] by simp

lemma mse_constant:
  assumes "0 < n"
  shows "mean_squared_error (replicate n (Fin a)) (replicate n (Fin b)) = Inr ((a - b)\<^sup>2)"
proof -
  have z: "map (\<lambda>(t, p). (t - p)\<^sup>2) (zip (replicate n a) (replicate n b)) = replicate n ((a - b)\<^sup>2)"
    by (induction n) simp_all
  have f: "\<not> (\<exists>v \<in> set (replicate n (Fin a)). \<not> is_finite v)" for a
    by (auto simp: is_finite_def)
  show ?thesis
    unfolding mean_squared_error_def finite_values_replicate z mean_replicate [OF assms]
    using assms f [of a] f [of b] by simp
qed

lemma deming_example:
  "\<exists>l. fst (deming_regression (np_polyfit1 (0, 0)) minimize
              (replicate 10 (Fin 5)) (replicate 10 (Fin 0)) None)
         = Inr \<lparr> slope = 0, intercept = 0, r2 = Fin 1, lambda_used = l \<rparr>"
proof -
  let ?x = "replicate 10 (Fin 5)" and ?y = "replicate 10 (Fin 0)"
  have "?x \<noteq> []" by simp
  then have dg: "degenerate ?x ?y"
    by (rule constant_degenerate [where c = 5]) simp
  have p: "np_polyfit1 (0, 0) (replicate 10 5) (replicate 10 0) = Inr (0, 0)"
    by (rule np_polyfit1_zero_rhs) simp_all
  have "fallback_fit (np_polyfit1 (0, 0)) ?x ?y =
       (if length ?x < 2 then (1, 0, Fin 0)
        else case np_polyfit1 (0, 0) (replicate (length ?x) 5) (replicate (length ?x) 0) of
               Inl e \<Rightarrow> (1, 0, Fin 0)
             | Inr (s, i) \<Rightarrow> (s, i, Fin (if s * 5 + i = 0 then 1 else 0)))"
    by (rule fallback_fit_const) simp_all
  then have f: "fallback_fit (np_polyfit1 (0, 0)) ?x ?y = (0, 0, Fin 1)"
    by (simp add: p)
  show ?thesis by (simp add: deming_degenerate [OF dg] f)
qed

lemma loco_group_B:
  "\<exists>e. loco_group (np_polyfit1 (0, 0)) minimize_at_start loco_example ''B'' = Inr (Some e)"
proof -
  obtain l where d: "fst (deming_regression (np_polyfit1 (0, 0)) minimize_at_start
        (replicate 10 (Fin 5)) (replicate 10 (Fin 0)) None)
      = Inr \<lparr> slope = 0, intercept = 0, r2 = Fin 1, lambda_used = l \<rparr>"
    using deming_example [of minimize_at_start] by auto
  have m1: "mean_squared_error (replicate 5 (Fin 3)) (replicate 5 (Fin 5)) = Inr 4"
    using mse_constant [of 5 3 5] by simp
  have m2: "mean_squared_error (replicate 5 (Fin 3)) (replicate 5 (Fin 0)) = Inr 9"
    using mse_constant [of 5 3 0] by simp
  show ?thesis
    unfolding loco_group_def Let_def loco_example_filter
    by (simp add: pair_example_sel d m1 m2)
qed

theorem loco_skips_and_improvement_witness:
  "loco_group (np_polyfit1 (0, 0)) minimize_at_start loco_example ''A'' = Inr None
   \<and> (\<exists>e. loco_validation (np_polyfit1 (0, 0)) minimize_at_start loco_example = Inr [(''B'', e)]
          \<and> n_train e = 10 \<and> n_test e = 5
          \<and> calibration_slope e = 0 \<and> calibration_intercept e = 0
          \<and> rmse_raw e = 2 \<and> rmse_calibrated e = 3
          \<and> rmse_improvement e = Fin (- 50))"
proof -
  note t = loco_skips_and_improvement [of _ loco_example "np_polyfit1 (0, 0)" minimize_at_start]
  have a: "loco_group (np_polyfit1 (0, 0)) minimize_at_start loco_example ''A'' = Inr None"
    using t [of "''A''"] by (simp add: loco_example_filter)
  obtain e where e: "loco_group (np_polyfit1 (0, 0)) minimize_at_start loco_example ''B'' = Inr (Some e)"
    using loco_group_B by blast
  have v: "loco_validation (np_polyfit1 (0, 0)) minimize_at_start loco_example = Inr [(''B'', e)]"
    by (simp add: loco_validation_def loco_example_cities a e)
  from t [of "''B''" "[(''B'', e)]"] v
  obtain fit where n: "n_train e = 10" "n_test e = 5"
    and fit: "fst (deming_regression (np_polyfit1 (0, 0)) minimize_at_start
                (replicate 10 (Fin 5)) (replicate 10 (Fin 0)) None) = Inr fit"
      "calibration_slope e = slope fit" "calibration_intercept e = intercept fit"
    and raw: "rmse_raw e = rmse (replicate 5 3) (replicate 5 5)"
    and cal: "rmse_calibrated e = rmse (replicate 5 3) (map (\<lambda>v. slope fit * v + intercept fit) (replicate 5 5))"
    and imp: "rmse_raw e \<noteq> 0 \<longrightarrow>
                rmse_improvement e = Fin ((rmse_raw e - rmse_calibrated e) / rmse_raw e * 100)"
    by (auto simp: loco_example_filter pair_example_sel finite_values_replicate)
  from fit(1) deming_example [of minimize_at_start]
  have sl: "slope fit = 0" "intercept fit = 0" by auto
  have r: "rmse_raw e = 2" unfolding raw using rmse_replicate [of 5 3 5] by simp
  have c: "rmse_calibrated e = 3" unfolding cal sl using rmse_replicate [of 5 3 0] by simp
  have i: "rmse_improvement e = Fin (- 50)" using imp r c by simp
  from a v n fit(2,3) sl r c i show ?thesis by auto
qed

end
